theory Spec2Isabelle
  imports Complex_Main "HOL-Library.Product_Lexorder"
begin

section \<open>Python values and failures\<close>

text \<open>
  Every exception the modelled code can raise is a value. \<open>SystemExit c\<close> is
  \<^verbatim>\<open>sys.exit(c)\<close>; the others are uncaught Python exceptions. A computation
  has type \<open>error + 'a\<close>, \<open>Inl\<close> carrying the failure.

  numpy and Python floats are modelled as \<open>real\<close>: the model describes the
  arithmetic the code asks for, not its rounding.
\<close>

datatype error = IndexError | KeyError | ValueError | OSError | SystemExit int

text \<open>\<^verbatim>\<open>xs[i]\<close> for a Python list: a negative index counts from the end.\<close>

definition py_index :: "'a list \<Rightarrow> int \<Rightarrow> error + 'a" where
  "py_index xs i =
     (if 0 \<le> i then (if nat i < length xs then Inr (xs ! nat i) else Inl IndexError)
      else (if nat (- i) \<le> length xs then Inr (xs ! (length xs - nat (- i)))
            else Inl IndexError))"

section \<open>quality\_check.py\<close>

text \<open>
  Lines 36--46 read, for every aligned image, its source catalogue from disk and reduce
  it to two numbers. The model takes the two numbers as attributes of the image.
\<close>

record aligned_image =
  img_name :: string
  fwhm_image :: real
  elong_image :: real

text \<open>
  An element of \<^verbatim>\<open>aligned_data\<close>; \<open>mjd\<close> is what
  \<^verbatim>\<open>tel.time_format(image.header)\<close> returns for it.
\<close>

record ccd =
  ccd_name :: string
  mjd :: real

text \<open>
  \<^verbatim>\<open>np.median\<close> and \<^verbatim>\<open>np.std\<close> (population standard deviation).
  On an empty array numpy returns nan for both; the model returns 0 there, a value that
  no frame is ever compared with, since there are no frames.
\<close>

definition np_median :: "real list \<Rightarrow> real" where
  "np_median xs =
     (let s = sort xs; n = length xs in
      if n = 0 then 0
      else if odd n then s ! (n div 2)
      else (s ! (n div 2 - 1) + s ! (n div 2)) / 2)"

definition np_mean :: "real list \<Rightarrow> real" where
  "np_mean xs = (if xs = [] then 0 else sum_list xs / real (length xs))"

definition np_std :: "real list \<Rightarrow> real" where
  "np_std xs = sqrt (np_mean (map (\<lambda>x. (x - np_mean xs)\<^sup>2) xs))"

text \<open>Line 59/60: the values above median + 3 std; line 76/77: that threshold.\<close>

definition three_sigma :: "real list \<Rightarrow> real" where
  "three_sigma xs = np_median xs + 3 * np_std xs"

definition sigma_cut :: "real list \<Rightarrow> real list" where
  "sigma_cut xs = filter (\<lambda>x. x > three_sigma xs) xs"

text \<open>
  Line 65, \<^verbatim>\<open>int(len(aligned_images)*0.1)\<close>: the double nearest to 0.1 lies above
  0.1, so the truncated product is the integer quotient by ten.
\<close>

definition ten_percent :: "nat \<Rightarrow> nat" where
  "ten_percent n = n div 10"

text \<open>\<^verbatim>\<open>sorted(xs, reverse=True)\<close>\<close>

definition sorted_reverse :: "real list \<Rightarrow> real list" where
  "sorted_reverse xs = rev (sort xs)"

text \<open>Lines 57--77: the two cuts, from the lists of metrics.\<close>

definition cuts :: "real list \<Rightarrow> real list \<Rightarrow> error + (real \<times> real)" where
  "cuts fwhm elong =
     (let fwhm_3sigma_cut = sigma_cut fwhm;
          elong_3sigma_cut = sigma_cut elong;
          n_fwhm = length fwhm_3sigma_cut;
          n_elong = length elong_3sigma_cut;
          tp = ten_percent (length fwhm)
      in if n_fwhm > tp \<or> n_elong > tp then
           (case py_index (sorted_reverse fwhm_3sigma_cut) (int tp - 1) of
              Inl e \<Rightarrow> Inl e
            | Inr fwhm_cut \<Rightarrow>
               (case py_index (sorted_reverse elong_3sigma_cut) (int tp - 1) of
                  Inl e \<Rightarrow> Inl e
                | Inr elong_cut \<Rightarrow> Inr (fwhm_cut, elong_cut)))
         else Inr (three_sigma fwhm, three_sigma elong))"

text \<open>
  Lines 78--85: the loop over \<^verbatim>\<open>enumerate(aligned_images)\<close>; \<^verbatim>\<open>aligned_data[i]\<close>
  is read only for a frame that is kept.
\<close>

fun stacking :: "real \<Rightarrow> real \<Rightarrow> (nat \<times> aligned_image) list \<Rightarrow> ccd list \<Rightarrow> error + ccd list" where
  "stacking fwhm_cut elong_cut [] aligned_data = Inr []"
| "stacking fwhm_cut elong_cut ((i, f) # rest) aligned_data =
     (if fwhm_image f > fwhm_cut \<or> elong_image f > elong_cut
      then stacking fwhm_cut elong_cut rest aligned_data
      else if i < length aligned_data
      then (case stacking fwhm_cut elong_cut rest aligned_data of
              Inl e \<Rightarrow> Inl e
            | Inr stacking_arrays \<Rightarrow> Inr (aligned_data ! i # stacking_arrays))
      else Inl IndexError)"

text \<open>Lines 88--93.\<close>

definition mid_time_of :: "real list \<Rightarrow> error + real" where
  "mid_time_of time_list =
     (let sorted_times = sort time_list in
      case py_index sorted_times 0 of
        Inl e \<Rightarrow> Inl e
      | Inr t0 \<Rightarrow>
         (case py_index sorted_times (- 1) of
            Inl e \<Rightarrow> Inl e
          | Inr t_last \<Rightarrow> Inr (t0 + (t_last - t0) / 2)))"

text \<open>The function returns the pair of line 98.\<close>

definition quality_check :: "aligned_image list \<Rightarrow> ccd list \<Rightarrow> error + (ccd list \<times> real)" where
  "quality_check aligned_images aligned_data =
     (case cuts (map fwhm_image aligned_images) (map elong_image aligned_images) of
        Inl e \<Rightarrow> Inl e
      | Inr (fwhm_cut, elong_cut) \<Rightarrow>
         (case stacking fwhm_cut elong_cut (enumerate 0 aligned_images) aligned_data of
            Inl e \<Rightarrow> Inl e
          | Inr stacking_arrays \<Rightarrow>
             (case mid_time_of (map mjd stacking_arrays) of
                Inl e \<Rightarrow> Inl e
              | Inr mid_time \<Rightarrow> Inr (stacking_arrays, mid_time))))"

section \<open>main\_pipeline.py: the median stack (lines 362--371)\<close>

text \<open>
  A Python tuple is the list of its components. Line 98 of quality\_check.py returns
  the tuple \<^verbatim>\<open>stacking_arrays, mid_time\<close>; line 362 of main\_pipeline.py unpacks
  the returned tuple into three names, which raises ValueError unless the tuple has
  three components.
\<close>

datatype pyval = PyArrays "ccd list" | PyFloat real

definition quality_check_tuple :: "aligned_image list \<Rightarrow> ccd list \<Rightarrow> error + pyval list" where
  "quality_check_tuple aligned_images aligned_data =
     (case quality_check aligned_images aligned_data of
        Inl e \<Rightarrow> Inl e
      | Inr (stacking_arrays, mid_time) \<Rightarrow> Inr [PyArrays stacking_arrays, PyFloat mid_time])"

definition unpack3 :: "pyval list \<Rightarrow> error + (pyval \<times> pyval \<times> pyval)" where
  "unpack3 vs = (case vs of [a, b, c] \<Rightarrow> Inr (a, b, c) | _ \<Rightarrow> Inl ValueError)"

text \<open>
  The header cards written at lines 365--370. \<open>rdnoise\<close> is what
  \<^verbatim>\<open>tel.rdnoise(sci_med.header)\<close> returns.
\<close>

record stack_header =
  MJD_OBS :: pyval
  EXPTIME :: real
  EXPTOT :: pyval
  GAIN :: real
  RDNOISE :: real
  NFILES :: nat

definition stack_header_of :: "real \<Rightarrow> aligned_image list \<Rightarrow> pyval \<Rightarrow> pyval \<Rightarrow> stack_header" where
  "stack_header_of rdnoise aligned_images mid_time total_time =
     \<lparr> MJD_OBS = mid_time, EXPTIME = 1, EXPTOT = total_time, GAIN = 1,
       RDNOISE = rdnoise / sqrt (real (length aligned_images)),
       NFILES = length aligned_images \<rparr>"

definition make_stack :: "real \<Rightarrow> aligned_image list \<Rightarrow> ccd list \<Rightarrow> error + (pyval \<times> stack_header)" where
  "make_stack rdnoise aligned_images aligned_data =
     (case quality_check_tuple aligned_images aligned_data of
        Inl e \<Rightarrow> Inl e
      | Inr ret \<Rightarrow>
         (case unpack3 ret of
            Inl e \<Rightarrow> Inl e
          | Inr (stacking_data, mid_time, total_time) \<Rightarrow>
              Inr (stacking_data, stack_header_of rdnoise aligned_images mid_time total_time)))"

section \<open>main\_pipeline.py: NIR sky frames (lines 292--296)\<close>

text \<open>
  \<open>time_diff tlist j\<close> is the sorted list of line 293 for frame \<open>j\<close>, where
  \<open>tlist\<close> is \<^verbatim>\<open>time_list[tar]\<close>. Python sorts the pairs lexicographically, as the
  order on pairs does here. \<^verbatim>\<open>time_list[tar][j]\<close> is read once for every element of
  the list, so an empty list raises nothing.
\<close>

definition time_diff :: "real list \<Rightarrow> nat \<Rightarrow> error + (real \<times> nat) list" where
  "time_diff tlist j =
     (if tlist = [] then Inr []
      else if j < length tlist
      then Inr (sort (map (\<lambda>(k, n2). (\<bar>tlist ! j - n2\<bar>, k)) (enumerate 0 tlist)))
      else Inl IndexError)"

text \<open>The indices \<^verbatim>\<open>k\<close> of \<^verbatim>\<open>time_diff[0:5]\<close>.\<close>

definition sky_indices :: "real list \<Rightarrow> nat \<Rightarrow> error + nat list" where
  "sky_indices tlist j =
     (case time_diff tlist j of Inl e \<Rightarrow> Inl e | Inr td \<Rightarrow> Inr (map snd (take 5 td)))"

text \<open>\<^verbatim>\<open>[processed[k] for _,k in time_diff[0:5]]\<close>\<close>

fun pick :: "'a list \<Rightarrow> nat list \<Rightarrow> error + 'a list" where
  "pick xs [] = Inr []"
| "pick xs (k # ks) =
     (if k < length xs
      then (case pick xs ks of Inl e \<Rightarrow> Inl e | Inr ys \<Rightarrow> Inr (xs ! k # ys))
      else Inl IndexError)"

definition sky_data :: "'a list \<Rightarrow> real list \<Rightarrow> nat \<Rightarrow> error + 'a list" where
  "sky_data processed tlist j =
     (case sky_indices tlist j of Inl e \<Rightarrow> Inl e | Inr ks \<Rightarrow> pick processed ks)"

section \<open>Python strings and dictionaries\<close>

text \<open>\<^verbatim>\<open>sub in s\<close> for strings: \<open>sub\<close> occurs in \<open>s\<close> as a substring.\<close>

fun py_in :: "string \<Rightarrow> string \<Rightarrow> bool" where
  "py_in sub [] = (sub = [])"
| "py_in sub (c # cs) = (take (length sub) (c # cs) = sub \<or> py_in sub cs)"

text \<open>\<^verbatim>\<open>s.split('_')\<close>\<close>

fun split_us :: "string \<Rightarrow> string list" where
  "split_us [] = [[]]"
| "split_us (c # cs) =
     (if c = CHR ''_'' then [] # split_us cs
      else (case split_us cs of [] \<Rightarrow> [[c]] | w # ws \<Rightarrow> (c # w) # ws))"

text \<open>\<^verbatim>\<open>s.replace(old, new)\<close>: every occurrence, scanning from the left.\<close>

function py_replace :: "string \<Rightarrow> string \<Rightarrow> string \<Rightarrow> string" where
  "py_replace old new s =
     (if old = [] then new @ concat (map (\<lambda>c. c # new) s)
      else if s = [] then []
      else if take (length old) s = old
      then new @ py_replace old new (drop (length old) s)
      else hd s # py_replace old new (tl s))"
  by pat_completeness auto
termination
  by (relation "measure (\<lambda>(old, new, s). length s)") auto

declare py_replace.simps [simp del]

text \<open>\<^verbatim>\<open>os.path.basename\<close>: what follows the last slash.\<close>

definition basename :: "string \<Rightarrow> string" where
  "basename f = rev (takeWhile (\<lambda>c. c \<noteq> CHR ''/'') (rev f))"

text \<open>
  A dictionary of lists keeps its keys in insertion order. The idiom
  \<^verbatim>\<open>try: d[k] except KeyError: d.update({k:[]})\<close> followed by \<^verbatim>\<open>d[k].append(v)\<close>:
\<close>

fun dict_append :: "(string \<times> 'a list) list \<Rightarrow> string \<Rightarrow> 'a \<Rightarrow> (string \<times> 'a list) list" where
  "dict_append [] k v = [(k, [v])]"
| "dict_append ((k', vs) # d) k v =
     (if k' = k then (k', vs @ [v]) # d else (k', vs) # dict_append d k v)"

section \<open>Sort\_files.py: sort\_files\<close>

text \<open>
  A header maps keywords to values. A raw file is its path and, when
  \<^verbatim>\<open>fits.open\<close> succeeds, the headers of its extensions.
\<close>

type_synonym header = "string \<rightharpoonup> string"

record raw_file =
  file_path :: string
  hdus :: "header list option"

text \<open>
  The members of the telescope module that sort\_files reads. The three functions of a
  header are taken as total.
\<close>

record classifier =
  raw_header_ext :: nat
  science_keyword :: "string list"
  science_files :: "string list"
  flat_keyword :: "string list"
  flat_files :: "string list"
  bias_keyword :: "string list"
  bias_files :: "string list"
  dark_keyword :: "string list"
  dark_files :: "string list"
  spec_keyword :: "string list"
  spec_files :: "string list"
  target_keyword :: string
  filter_keyword :: "header \<Rightarrow> string"
  exptime :: "header \<Rightarrow> string"
  time_format :: "header \<Rightarrow> real"
  wavelength :: string

text \<open>One row of \<^verbatim>\<open>file_table\<close>; the Time of a row that is not SCIENCE is None.\<close>

record table_row =
  row_File :: string
  row_Target :: string
  row_Filter :: string
  row_Exp :: string
  row_Type :: string
  row_Time :: "real option"

text \<open>
  The variables of the loop, with the moves done so far (\<^verbatim>\<open>shutil.move(f, moved_path)\<close>).
\<close>

record sort_state =
  cal_list :: "(string \<times> string list) list"
  sci_list :: "(string \<times> string list) list"
  sky_list :: "(string \<times> string list) list"
  time_list :: "(string \<times> real list) list"
  file_table :: "table_row list"
  bad_num :: nat
  spec_num :: nat
  moved :: "(string \<times> string) list"

text \<open>\<^verbatim>\<open>np.all\<close> of a list comprehension: the first element that raises ends it.\<close>

fun np_all :: "(error + bool) list \<Rightarrow> error + bool" where
  "np_all [] = Inr True"
| "np_all (Inl e # rs) = Inl e"
| "np_all (Inr b # rs) = (case np_all rs of Inl e \<Rightarrow> Inl e | Inr c \<Rightarrow> Inr (b \<and> c))"

text \<open>\<^verbatim>\<open>[hdr[keyword[j]] == files[j] for j in range(len(keyword))]\<close>\<close>

definition header_equals :: "header \<Rightarrow> string list \<Rightarrow> string list \<Rightarrow> (error + bool) list" where
  "header_equals hdr keyword files =
     map (\<lambda>j. case hdr (keyword ! j) of
                 None \<Rightarrow> Inl KeyError
               | Some v \<Rightarrow> if j < length files then Inr (v = files ! j) else Inl IndexError)
         [0..<length keyword]"

text \<open>\<^verbatim>\<open>[files[j] in hdr[keyword[j]] for j in range(len(keyword))]\<close>\<close>

definition header_contains :: "header \<Rightarrow> string list \<Rightarrow> string list \<Rightarrow> (error + bool) list" where
  "header_contains hdr keyword files =
     map (\<lambda>j. if j < length files
               then (case hdr (keyword ! j) of
                       None \<Rightarrow> Inl KeyError
                     | Some v \<Rightarrow> Inr (py_in (files ! j) v))
               else Inl IndexError)
         [0..<length keyword]"

text \<open>Lines 96, 105, 126, 131 and 140: which branch of the chain is taken.\<close>

definition file_type_of :: "classifier \<Rightarrow> header \<Rightarrow> error + string" where
  "file_type_of tel hdr =
     (case (if length (flat_keyword tel) \<noteq> 0
            then np_all (header_contains hdr (flat_keyword tel) (flat_files tel))
            else Inr False) of
        Inl e \<Rightarrow> Inl e
      | Inr True \<Rightarrow> Inr ''FLAT''
      | Inr False \<Rightarrow>
     (case np_all (header_equals hdr (science_keyword tel) (science_files tel)) of
        Inl e \<Rightarrow> Inl e
      | Inr True \<Rightarrow> Inr ''SCIENCE''
      | Inr False \<Rightarrow>
     (case (if length (bias_keyword tel) \<noteq> 0
            then np_all (header_equals hdr (bias_keyword tel) (bias_files tel))
            else Inr False) of
        Inl e \<Rightarrow> Inl e
      | Inr True \<Rightarrow> Inr ''BIAS''
      | Inr False \<Rightarrow>
     (case (if length (dark_keyword tel) \<noteq> 0
            then np_all (header_equals hdr (dark_keyword tel) (dark_files tel))
            else Inr False) of
        Inl e \<Rightarrow> Inl e
      | Inr True \<Rightarrow> Inr ''DARK''
      | Inr False \<Rightarrow>
     (case np_all (header_equals hdr (spec_keyword tel) (spec_files tel)) of
        Inl e \<Rightarrow> Inl e
      | Inr True \<Rightarrow> Inr ''SPEC''
      | Inr False \<Rightarrow> Inr ''BAD'')))))"

text \<open>
  Lines 92--150 for a file whose header was read and holds the target keyword with value
  \<open>target_value\<close>: the branch updates the lists, and line 150 adds the row.
\<close>

definition classified :: "classifier \<Rightarrow> string \<Rightarrow> string \<Rightarrow> header \<Rightarrow> string \<Rightarrow> string \<Rightarrow> sort_state \<Rightarrow> sort_state" where
  "classified tel path f hdr target_value file_type st =
     (let target = filter (\<lambda>c. c \<noteq> CHR '' '') target_value;
          fil = filter_keyword tel hdr;
          exp = exptime tel hdr;
          moved_path = (if file_type = ''SPEC'' then path @ ''spec/''
                        else if file_type = ''BAD'' then path @ ''bad/''
                        else path @ ''raw/'');
          new = py_replace path moved_path f;
          file_time = (if file_type = ''SCIENCE'' then Some (time_format tel hdr) else None);
          st1 = st\<lparr>moved := moved st @ [(f, moved_path)]\<rparr>;
          st2 =
            (if file_type = ''FLAT''
             then st1\<lparr>cal_list := dict_append (cal_list st1) (''FLAT_'' @ fil) new\<rparr>
             else if file_type = ''SCIENCE''
             then (let st' = st1\<lparr>sci_list := dict_append (sci_list st1) (target @ ''_'' @ fil) new,
                                  time_list := dict_append (time_list st1) (target @ ''_'' @ fil)
                                                 (time_format tel hdr)\<rparr>
                   in if wavelength tel = ''NIR''
                      then st'\<lparr>sky_list := dict_append (sky_list st') fil new\<rparr>
                      else st')
             else if file_type = ''BIAS''
             then st1\<lparr>cal_list := dict_append (cal_list st1) ''BIAS'' new\<rparr>
             else if file_type = ''DARK''
             then st1\<lparr>cal_list := dict_append (cal_list st1) (''DARK_'' @ exp) new\<rparr>
             else if file_type = ''SPEC''
             then st1\<lparr>spec_num := spec_num st1 + 1\<rparr>
             else st1\<lparr>bad_num := bad_num st1 + 1\<rparr>)
      in st2\<lparr>file_table := file_table st2 @
                 [\<lparr>row_File = moved_path @ basename f, row_Target = target, row_Filter = fil,
                   row_Exp = exp, row_Type = file_type, row_Time = file_time\<rparr>]\<rparr>)"

text \<open>
  One turn of the loop of line 83. A file that cannot be opened raises; a file without
  extension \<^verbatim>\<open>ext\<close> is moved to \<^verbatim>\<open>bad/\<close> and the loop continues with the next file
  (lines 87--91).
\<close>

definition sort_one :: "classifier \<Rightarrow> string \<Rightarrow> raw_file \<Rightarrow> sort_state \<Rightarrow> error + sort_state" where
  "sort_one tel path file st =
     (case hdus file of
        None \<Rightarrow> Inl OSError
      | Some hs \<Rightarrow>
         (if raw_header_ext tel < length hs
          then (let hdr = hs ! raw_header_ext tel in
                case hdr (target_keyword tel) of
                  None \<Rightarrow> Inl KeyError
                | Some target_value \<Rightarrow>
                   (case file_type_of tel hdr of
                      Inl e \<Rightarrow> Inl e
                    | Inr file_type \<Rightarrow>
                        Inr (classified tel path (file_path file) hdr target_value file_type st)))
          else Inr (st\<lparr>moved := moved st @ [(file_path file, path @ ''bad/'')]\<rparr>)))"

fun sort_loop :: "classifier \<Rightarrow> string \<Rightarrow> raw_file list \<Rightarrow> sort_state \<Rightarrow> error + sort_state" where
  "sort_loop tel path [] st = Inr st"
| "sort_loop tel path (file # files) st =
     (case sort_one tel path file st of
        Inl e \<Rightarrow> Inl e
      | Inr st' \<Rightarrow> sort_loop tel path files st')"

text \<open>
  sort\_files: the state of lines 72--81, the loop, and the table written at line 151.
  The result is the final state; the function returns its four lists, and the table
  written to \<^verbatim>\<open>file_list.txt\<close> is its \<open>file_table\<close>.
\<close>

definition initial_state :: sort_state where
  "initial_state = \<lparr> cal_list = [(''BIAS'', [])], sci_list = [], sky_list = [], time_list = [],
                     file_table = [], bad_num = 0, spec_num = 0, moved = [] \<rparr>"

definition sort_files :: "raw_file list \<Rightarrow> classifier \<Rightarrow> string \<Rightarrow> error + sort_state" where
  "sort_files files tel path = sort_loop tel path files initial_state"

section \<open>main\_pipeline.py: the master frames (lines 116--239)\<close>

text \<open>
  The file system maps a path to the content of the file there. The members of the
  telescope module that these lines call: \<open>load_bias\<close> returns None where the
  Python raises; a build delegate changes the file system.
\<close>

type_synonym fsys = "string \<rightharpoonup> string"

record calibrator =
  bias :: bool
  dark :: bool
  flat :: bool
  instrument_wavelength :: string
  flat_name :: "string \<Rightarrow> string \<Rightarrow> string \<Rightarrow> string \<Rightarrow> string list"
  load_bias :: "fsys \<Rightarrow> string \<Rightarrow> string \<Rightarrow> string \<Rightarrow> string option"
  create_bias :: "(string \<times> string list) list \<Rightarrow> string \<Rightarrow> string \<Rightarrow> fsys \<Rightarrow> fsys"
  create_dark :: "(string \<times> string list) list \<Rightarrow> string \<Rightarrow> string option \<Rightarrow> string \<Rightarrow> fsys \<Rightarrow> fsys"
  create_flat :: "string list \<Rightarrow> string \<Rightarrow> string \<Rightarrow> string \<Rightarrow> string \<Rightarrow> string option \<Rightarrow> fsys \<Rightarrow> fsys"

text \<open>The calls of build delegates, in order, beside the file system.\<close>

datatype build =
  Create_bias string | Create_dark string | Create_flat "string list" string string string

record world =
  files :: fsys
  builds :: "build list"

definition exists :: "fsys \<Rightarrow> string \<Rightarrow> bool" where
  "exists fs p = (fs p \<noteq> None)"

text \<open>Lines 119--137, for one key \<open>cal\<close> of \<open>cal_list\<close>.\<close>

definition bias_key ::
  "calibrator \<Rightarrow> bool \<Rightarrow> string \<Rightarrow> (string \<times> string list) list \<Rightarrow> string \<Rightarrow> nat \<times> world \<Rightarrow> error + (nat \<times> world)" where
  "bias_key tel skip_red red_path cals cal nw =
     (case nw of (bias_num, w) \<Rightarrow>
      if py_in ''BIAS'' cal then
        (case py_index (split_us cal) 1 of
           Inl e \<Rightarrow> Inl e
         | Inr amp \<Rightarrow>
            (case py_index (split_us cal) 2 of
               Inl e \<Rightarrow> Inl e
             | Inr binn \<Rightarrow>
                (let process_bias =
                       \<not> (skip_red \<and> exists (files w) (red_path @ ''mbias_'' @ amp @ ''_'' @ binn @ ''.fits''))
                 in if process_bias
                    then Inr (bias_num + 1,
                              w\<lparr>files := create_bias tel cals cal red_path (files w),
                                builds := builds w @ [Create_bias cal]\<rparr>)
                    else Inr (bias_num + 1, w))))
      else Inr (bias_num, w))"

fun bias_loop ::
  "calibrator \<Rightarrow> bool \<Rightarrow> string \<Rightarrow> (string \<times> string list) list \<Rightarrow> string list \<Rightarrow> nat \<times> world \<Rightarrow> error + (nat \<times> world)" where
  "bias_loop tel skip_red red_path cals [] nw = Inr nw"
| "bias_loop tel skip_red red_path cals (cal # rest) nw =
     (case bias_key tel skip_red red_path cals cal nw of
        Inl e \<Rightarrow> Inl e
      | Inr nw' \<Rightarrow> bias_loop tel skip_red red_path cals rest nw')"

text \<open>Lines 116--141; \<^verbatim>\<open>sys.exit(-1)\<close> when no key counted.\<close>

definition bias_stage ::
  "calibrator \<Rightarrow> bool \<Rightarrow> string \<Rightarrow> (string \<times> string list) list \<Rightarrow> world \<Rightarrow> error + world" where
  "bias_stage tel skip_red red_path cals w =
     (if bias tel then
        (case bias_loop tel skip_red red_path cals (map fst cals) (0, w) of
           Inl e \<Rightarrow> Inl e
         | Inr (bias_num, w') \<Rightarrow> if bias_num = 0 then Inl (SystemExit (- 1)) else Inr w')
      else Inr w)"

text \<open>
  Lines 145--170, for one key \<open>cal\<close> of \<open>cal_list\<close>. The \<^verbatim>\<open>continue\<close> of line
  164 leaves the world as it is.
\<close>

definition dark_key ::
  "calibrator \<Rightarrow> bool \<Rightarrow> string \<Rightarrow> (string \<times> string list) list \<Rightarrow> string \<Rightarrow> world \<Rightarrow> error + world" where
  "dark_key tel skip_red red_path cals cal w =
     (if py_in ''DARK'' cal then
        (case py_index (split_us cal) 1 of
           Inl e \<Rightarrow> Inl e
         | Inr exposure \<Rightarrow>
        (case py_index (split_us cal) 2 of
           Inl e \<Rightarrow> Inl e
         | Inr amp \<Rightarrow>
        (case py_index (split_us cal) 3 of
           Inl e \<Rightarrow> Inl e
         | Inr binn \<Rightarrow>
            (let process_dark = \<not> (skip_red \<and> exists (files w) (red_path @ cal @ ''.fits''))
             in if process_dark then
                  (if bias tel \<and> load_bias tel (files w) red_path amp binn = None then Inr w
                   else Inr (w\<lparr>files := create_dark tel cals cal
                                            (if bias tel then load_bias tel (files w) red_path amp binn
                                             else None)
                                            red_path (files w),
                                 builds := builds w @ [Create_dark cal]\<rparr>))
                else Inr w))))
      else Inr w)"

fun dark_loop ::
  "calibrator \<Rightarrow> bool \<Rightarrow> string \<Rightarrow> (string \<times> string list) list \<Rightarrow> string list \<Rightarrow> world \<Rightarrow> error + world" where
  "dark_loop tel skip_red red_path cals [] w = Inr w"
| "dark_loop tel skip_red red_path cals (cal # rest) w =
     (case dark_key tel skip_red red_path cals cal w of
        Inl e \<Rightarrow> Inl e
      | Inr w' \<Rightarrow> dark_loop tel skip_red red_path cals rest w')"

text \<open>Lines 143--170.\<close>

definition dark_stage ::
  "calibrator \<Rightarrow> bool \<Rightarrow> string \<Rightarrow> (string \<times> string list) list \<Rightarrow> world \<Rightarrow> error + world" where
  "dark_stage tel skip_red red_path cals w =
     (if dark tel then dark_loop tel skip_red red_path cals (map fst cals) w else Inr w)"

text \<open>
  Lines 174--209, for one key \<open>cal\<close> of \<open>cal_list\<close> with its frames. The
  \<^verbatim>\<open>continue\<close> of line 194 leaves the world as it is.
\<close>

definition flat_key ::
  "calibrator \<Rightarrow> bool \<Rightarrow> bool \<Rightarrow> string \<Rightarrow> string \<Rightarrow> string \<times> string list \<Rightarrow> world \<Rightarrow> error + world" where
  "flat_key tel skip_red use_dome_flats red_path flat_path entry w =
     (case entry of (cal, frames) \<Rightarrow>
      if py_in ''FLAT'' cal then
        (case py_index (split_us cal) 1 of
           Inl e \<Rightarrow> Inl e
         | Inr fil \<Rightarrow>
        (case py_index (split_us cal) 2 of
           Inl e \<Rightarrow> Inl e
         | Inr amp \<Rightarrow>
        (case py_index (split_us cal) 3 of
           Inl e \<Rightarrow> Inl e
         | Inr binn \<Rightarrow>
            (let process_flat =
                   \<not> (skip_red \<and> list_all (exists (files w)) (flat_name tel flat_path fil amp binn));
                 built = w\<lparr>files := create_flat tel frames fil amp binn red_path
                                      (if bias tel then load_bias tel (files w) red_path amp binn else None)
                                      (files w),
                           builds := builds w @ [Create_flat frames fil amp binn]\<rparr>
             in if process_flat then
                  (if bias tel \<and> load_bias tel (files w) red_path amp binn = None then Inr w
                   else if instrument_wavelength tel = ''OPT'' then Inr built
                   else if instrument_wavelength tel = ''NIR'' then
                     (if use_dome_flats then Inr built else Inr w)
                   else Inr w)
                else Inr w))))
      else Inr w)"

fun flat_loop ::
  "calibrator \<Rightarrow> bool \<Rightarrow> bool \<Rightarrow> string \<Rightarrow> string \<Rightarrow> (string \<times> string list) list \<Rightarrow> world \<Rightarrow> error + world" where
  "flat_loop tel skip_red use_dome_flats red_path flat_path [] w = Inr w"
| "flat_loop tel skip_red use_dome_flats red_path flat_path (entry # rest) w =
     (case flat_key tel skip_red use_dome_flats red_path flat_path entry w of
        Inl e \<Rightarrow> Inl e
      | Inr w' \<Rightarrow> flat_loop tel skip_red use_dome_flats red_path flat_path rest w')"

text \<open>
  Lines 211--239, for one key \<open>fil_list\<close> of \<open>sky_list\<close> with its science frames:
  the sky flat of an NIR instrument.
\<close>

definition sky_flat_key ::
  "calibrator \<Rightarrow> bool \<Rightarrow> string \<Rightarrow> string \<Rightarrow> string \<times> string list \<Rightarrow> world \<Rightarrow> error + world" where
  "sky_flat_key tel skip_red red_path flat_path entry w =
     (case entry of (fil_list, frames) \<Rightarrow>
        (case py_index (split_us fil_list) 0 of
           Inl e \<Rightarrow> Inl e
         | Inr fil \<Rightarrow>
        (case py_index (split_us fil_list) 1 of
           Inl e \<Rightarrow> Inl e
         | Inr amp \<Rightarrow>
        (case py_index (split_us fil_list) 2 of
           Inl e \<Rightarrow> Inl e
         | Inr binn \<Rightarrow>
            (let process_flat =
                   \<not> (skip_red \<and> list_all (exists (files w)) (flat_name tel flat_path fil amp binn))
             in if process_flat then
                  (if bias tel \<and> load_bias tel (files w) red_path amp binn = None then Inr w
                   else Inr (w\<lparr>files := create_flat tel frames fil amp binn red_path
                                            (if bias tel then load_bias tel (files w) red_path amp binn
                                             else None)
                                            (files w),
                                 builds := builds w @ [Create_flat frames fil amp binn]\<rparr>))
                else Inr w)))))"

fun sky_flat_loop ::
  "calibrator \<Rightarrow> bool \<Rightarrow> string \<Rightarrow> string \<Rightarrow> (string \<times> string list) list \<Rightarrow> world \<Rightarrow> error + world" where
  "sky_flat_loop tel skip_red red_path flat_path [] w = Inr w"
| "sky_flat_loop tel skip_red red_path flat_path (entry # rest) w =
     (case sky_flat_key tel skip_red red_path flat_path entry w of
        Inl e \<Rightarrow> Inl e
      | Inr w' \<Rightarrow> sky_flat_loop tel skip_red red_path flat_path rest w')"

text \<open>Lines 172--239.\<close>

definition flat_stage ::
  "calibrator \<Rightarrow> bool \<Rightarrow> bool \<Rightarrow> string \<Rightarrow> string \<Rightarrow> (string \<times> string list) list \<Rightarrow>
   (string \<times> string list) list \<Rightarrow> world \<Rightarrow> error + world" where
  "flat_stage tel skip_red use_dome_flats red_path flat_path cals skies w =
     (if flat tel then
        (case flat_loop tel skip_red use_dome_flats red_path flat_path cals w of
           Inl e \<Rightarrow> Inl e
         | Inr w' \<Rightarrow>
            if instrument_wavelength tel = ''NIR'' \<and> \<not> use_dome_flats
            then sky_flat_loop tel skip_red red_path flat_path skies w'
            else Inr w')
      else Inr w)"

text \<open>
  Lines 116--239 in order: the master bias, the master darks, the master flats. An
  exception or exit of one stage ends the run.
\<close>

definition master_frames ::
  "calibrator \<Rightarrow> bool \<Rightarrow> bool \<Rightarrow> string \<Rightarrow> string \<Rightarrow> (string \<times> string list) list \<Rightarrow>
   (string \<times> string list) list \<Rightarrow> world \<Rightarrow> error + world" where
  "master_frames tel skip_red use_dome_flats red_path flat_path cals skies w =
     (case bias_stage tel skip_red red_path cals w of
        Inl e \<Rightarrow> Inl e
      | Inr w1 \<Rightarrow>
         (case dark_stage tel skip_red red_path cals w1 of
            Inl e \<Rightarrow> Inl e
          | Inr w2 \<Rightarrow> flat_stage tel skip_red use_dome_flats red_path flat_path cals skies w2))"

section \<open>Concrete inputs\<close>

text \<open>Frames and their data from lists of attributes.\<close>

definition images :: "(string \<times> real \<times> real) list \<Rightarrow> aligned_image list" where
  "images rows = map (\<lambda>(n, f, e). \<lparr>img_name = n, fwhm_image = f, elong_image = e\<rparr>) rows"

definition arrays :: "(string \<times> real) list \<Rightarrow> ccd list" where
  "arrays rows = map (\<lambda>(n, t). \<lparr>ccd_name = n, mjd = t\<rparr>) rows"

text \<open>Three frames of equal quality, observed at 10.0, 10.5 and 11.2.\<close>

definition three_images :: "aligned_image list" where
  "three_images = images [(''a.fits'', 3 / 2, 1), (''b.fits'', 3 / 2, 1), (''c.fits'', 3 / 2, 1)]"

definition three_arrays :: "ccd list" where
  "three_arrays = arrays [(''a.fits'', 10), (''b.fits'', 21 / 2), (''c.fits'', 56 / 5)]"

text \<open>Four frames of equal quality.\<close>

definition four_images :: "aligned_image list" where
  "four_images = images [(''a.fits'', 1, 1), (''b.fits'', 1, 1), (''c.fits'', 1, 1), (''d.fits'', 1, 1)]"

definition four_arrays :: "ccd list" where
  "four_arrays = arrays [(''a.fits'', 1), (''b.fits'', 2), (''c.fits'', 3), (''d.fits'', 4)]"

text \<open>Nine frames, the last with twice the FWHM of the others.\<close>

definition nine_images :: "aligned_image list" where
  "nine_images = images
     [(''f1.fits'', 1, 1), (''f2.fits'', 1, 1), (''f3.fits'', 1, 1), (''f4.fits'', 1, 1),
      (''f5.fits'', 1, 1), (''f6.fits'', 1, 1), (''f7.fits'', 1, 1), (''f8.fits'', 1, 1),
      (''f9.fits'', 2, 1)]"

definition nine_arrays :: "ccd list" where
  "nine_arrays = arrays
     [(''f1.fits'', 1), (''f2.fits'', 2), (''f3.fits'', 3), (''f4.fits'', 4), (''f5.fits'', 5),
      (''f6.fits'', 6), (''f7.fits'', 7), (''f8.fits'', 8), (''f9.fits'', 9)]"

text \<open>
  Metrics of sixteen frames: two FWHM values and one elongation beyond three standard
  deviations; and of ten frames with one such value in each metric.
\<close>

definition fwhm16 :: "real list" where
  "fwhm16 = [1, 1, 1, 1, 1, 1, 1, 1, 1, 1, 1, 1, 1, 1, 2, 2]"

definition elong16 :: "real list" where
  "elong16 = [1, 1, 1, 1, 1, 1, 1, 1, 1, 1, 1, 1, 1, 1, 1, 2]"

definition fwhm10 :: "real list" where
  "fwhm10 = [1, 1, 1, 1, 1, 1, 1, 1, 1, 2]"

definition elong10 :: "real list" where
  "elong10 = [3, 1, 1, 1, 1, 1, 1, 1, 1, 1]"

text \<open>Observation times: seven frames a day apart, and six frames with one time.\<close>

definition seven_times :: "real list" where
  "seven_times = [59001, 59002, 59003, 59004, 59005, 59006, 59007]"

definition six_times :: "real list" where
  "six_times = [59001, 59001, 59001, 59001, 59001, 59001]"

text \<open>
  An instrument whose raw headers are in extension 1, and three raw files: one with the
  primary extension only, a science frame, and a frame that matches no predicate.
\<close>

definition imager :: classifier where
  "imager =
     \<lparr> raw_header_ext = 1,
       science_keyword = [''OBSMODE'', ''APTYPE''], science_files = [''imaging'', ''open''],
       flat_keyword = [], flat_files = [],
       bias_keyword = [''OBJECT''], bias_files = [''Bias''],
       dark_keyword = [''OBJECT''], dark_files = [''Dark''],
       spec_keyword = [''OBSMODE''], spec_files = [''spectroscopy''],
       target_keyword = ''OBJECT'',
       filter_keyword = (\<lambda>hdr. case hdr ''FILTER'' of None \<Rightarrow> ''none'' | Some v \<Rightarrow> v),
       exptime = (\<lambda>hdr. case hdr ''EXPTIME'' of None \<Rightarrow> ''0'' | Some v \<Rightarrow> v),
       time_format = (\<lambda>hdr. 59001),
       wavelength = ''NIR'' \<rparr>"

definition primary_only :: raw_file where
  "primary_only = \<lparr> file_path = ''/data/p.fits'', hdus = Some [Map.empty] \<rparr>"

definition science_frame :: raw_file where
  "science_frame =
     \<lparr> file_path = ''/data/s.fits'',
       hdus = Some [Map.empty,
                    [''OBJECT'' \<mapsto> ''GRB 1'', ''OBSMODE'' \<mapsto> ''imaging'', ''APTYPE'' \<mapsto> ''open'',
                     ''FILTER'' \<mapsto> ''K'', ''EXPTIME'' \<mapsto> ''30'']] \<rparr>"

definition unknown_frame :: raw_file where
  "unknown_frame =
     \<lparr> file_path = ''/data/u.fits'',
       hdus = Some [Map.empty,
                    [''OBJECT'' \<mapsto> ''test'', ''OBSMODE'' \<mapsto> ''align'', ''APTYPE'' \<mapsto> ''open'',
                     ''FILTER'' \<mapsto> ''K'', ''EXPTIME'' \<mapsto> ''1'']] \<rparr>"

text \<open>
  An optical instrument with bias calibration, whose masters are named after the
  configuration, and an empty reduction directory.
\<close>

definition optical :: calibrator where
  "optical =
     \<lparr> bias = True, dark = False, flat = True, instrument_wavelength = ''OPT'',
       flat_name = (\<lambda>flat_path fil amp binn.
                      [flat_path @ ''mflat_'' @ fil @ ''_'' @ amp @ ''_'' @ binn @ ''.fits'']),
       load_bias = (\<lambda>fs red_path amp binn. fs (red_path @ ''mbias_'' @ amp @ ''_'' @ binn @ ''.fits'')),
       create_bias = (\<lambda>cals cal red_path fs. fs(red_path @ ''m'' @ cal @ ''.fits'' \<mapsto> ''master bias'')),
       create_dark = (\<lambda>cals cal mbias red_path fs. fs(red_path @ cal @ ''.fits'' \<mapsto> ''master dark'')),
       create_flat = (\<lambda>frames fil amp binn red_path mbias fs.
                        fs(red_path @ ''mflat_'' @ fil @ ''_'' @ amp @ ''_'' @ binn @ ''.fits''
                             \<mapsto> ''master flat'')) \<rparr>"

definition empty_world :: world where
  "empty_world = \<lparr> files = Map.empty, builds = [] \<rparr>"

text \<open>
  The same instrument without bias calibration, and an NIR instrument without bias and
  dark calibration; a reduction directory that holds the master flat of filter V.
\<close>

definition optical_no_bias :: calibrator where
  "optical_no_bias = optical\<lparr>bias := False\<rparr>"

definition nir_camera :: calibrator where
  "nir_camera = optical\<lparr>bias := False, instrument_wavelength := ''NIR''\<rparr>"

definition reduced_world :: world where
  "reduced_world = \<lparr> files = [''/data//red/mflat_V_A_1x1.fits'' \<mapsto> ''old flat''], builds = [] \<rparr>"

text \<open>
  What sort\_files reads of the NIR instrument, whose filter names carry amplifier and
  binning, and two raw files: a dome flat in filter V and a science frame in filter K.
\<close>

definition nir_classifier :: classifier where
  "nir_classifier =
     \<lparr> raw_header_ext = 1,
       science_keyword = [''OBSMODE''], science_files = [''imaging''],
       flat_keyword = [''IMAGETYP''], flat_files = [''flat''],
       bias_keyword = [], bias_files = [],
       dark_keyword = [], dark_files = [],
       spec_keyword = [''OBSMODE''], spec_files = [''spectroscopy''],
       target_keyword = ''OBJECT'',
       filter_keyword = (\<lambda>hdr. case hdr ''FILTER'' of None \<Rightarrow> ''none'' | Some v \<Rightarrow> v),
       exptime = (\<lambda>hdr. case hdr ''EXPTIME'' of None \<Rightarrow> ''0'' | Some v \<Rightarrow> v),
       time_format = (\<lambda>hdr. 59001),
       wavelength = ''NIR'' \<rparr>"

definition dome_flat_V :: raw_file where
  "dome_flat_V =
     \<lparr> file_path = ''/data/f.fits'',
       hdus = Some [Map.empty,
                    [''OBJECT'' \<mapsto> ''dome'', ''IMAGETYP'' \<mapsto> ''domeflat'', ''OBSMODE'' \<mapsto> ''imaging'',
                     ''FILTER'' \<mapsto> ''V_A_1x1'', ''EXPTIME'' \<mapsto> ''5'']] \<rparr>"

definition science_K :: raw_file where
  "science_K =
     \<lparr> file_path = ''/data/s.fits'',
       hdus = Some [Map.empty,
                    [''OBJECT'' \<mapsto> ''GRB 1'', ''IMAGETYP'' \<mapsto> ''object'', ''OBSMODE'' \<mapsto> ''imaging'',
                     ''FILTER'' \<mapsto> ''K_A_1x1'', ''EXPTIME'' \<mapsto> ''30'']] \<rparr>"

section \<open>Notions of the specification\<close>

text \<open>
  The \<open>k\<close>-th largest of a list of values, counted from 1; and relaxation per metric
  as the specification words it, with \<open>cap = floor(0.1 N)\<close>: a metric with more
  outliers than \<open>cap\<close> gets its \<open>cap\<close>-th largest outlier as threshold, and a metric
  with at most \<open>cap\<close> outliers keeps median + 3 std.
\<close>

definition kth_largest :: "nat \<Rightarrow> real list \<Rightarrow> real" where
  "kth_largest k xs = rev (sort xs) ! (k - 1)"

definition per_metric_threshold :: "nat \<Rightarrow> real list \<Rightarrow> real" where
  "per_metric_threshold cap xs =
     (if length (sigma_cut xs) > cap then kth_largest cap (sigma_cut xs) else three_sigma xs)"

text \<open>The files whose header extension can be read.\<close>

definition header_read :: "classifier \<Rightarrow> raw_file \<Rightarrow> bool" where
  "header_read tel file =
     (case hdus file of None \<Rightarrow> False | Some hs \<Rightarrow> raw_header_ext tel < length hs)"

section \<open>Facts about the statistics\<close>

lemma np_median_replicate: "0 < n \<Longrightarrow> np_median (replicate n a) = a"
proof -
  assume n: "0 < n"
  have s: "sort (replicate n a) = replicate n a"
    by (simp add: sort_key_id_if_sorted)
  have "n div 2 < n" "n div 2 - 1 < n" using n by simp_all
  then show ?thesis using n by (simp add: np_median_def s Let_def)
qed

lemma np_mean_replicate: "0 < n \<Longrightarrow> np_mean (replicate n a) = a"
  by (simp add: np_mean_def sum_list_replicate)

lemma np_std_replicate: "np_std (replicate n a) = 0"
proof (cases "n = 0")
  case True
  then show ?thesis by (simp add: np_std_def np_mean_def)
next
  case False
  then have m: "np_mean (replicate n a) = a" by (simp add: np_mean_replicate)
  show ?thesis using False by (simp add: np_std_def m np_mean_def sum_list_replicate)
qed

lemma np_mean_nonneg: "(\<And>x. x \<in> set ys \<Longrightarrow> 0 \<le> x) \<Longrightarrow> 0 \<le> np_mean ys"
  unfolding np_mean_def by (simp add: sum_list_nonneg)

lemma np_std_nonneg: "0 \<le> np_std xs"
  unfolding np_std_def by (rule real_sqrt_ge_zero, rule np_mean_nonneg) auto

lemma three_sigma_replicate: "0 < n \<Longrightarrow> three_sigma (replicate n a) = a"
  by (simp add: three_sigma_def np_median_replicate np_std_replicate)

lemma sigma_cut_replicate: "sigma_cut (replicate n a) = []"
proof (cases "n = 0")
  case True
  then show ?thesis by (simp add: sigma_cut_def)
next
  case False
  then show ?thesis by (simp add: sigma_cut_def three_sigma_replicate)
qed

lemma cuts_replicate: "0 < n \<Longrightarrow> cuts (replicate n a) (replicate n b) = Inr (a, b)"
  by (simp add: cuts_def sigma_cut_replicate three_sigma_replicate Let_def)

lemma constant_list: "\<forall>x \<in> set xs. x = a \<Longrightarrow> xs = replicate (length xs) a"
  by (induction xs) auto

lemma three_sqrt_less: "0 \<le> q \<Longrightarrow> 0 \<le> d \<Longrightarrow> 9 * q < d\<^sup>2 \<Longrightarrow> 3 * sqrt q < d"
proof -
  assume "0 \<le> q" "0 \<le> d" "9 * q < d\<^sup>2"
  then have "sqrt q < d / 3"
    by (intro real_less_lsqrt) (simp_all add: power2_eq_square)
  then show ?thesis by simp
qed

section \<open>Facts about the loop that keeps frames\<close>

lemma stacking_keeps_all:
  "\<forall>f \<in> set fs. \<not> (fwhm_image f > fc \<or> elong_image f > ec) \<Longrightarrow>
   k + length fs \<le> length ds \<Longrightarrow>
   stacking fc ec (enumerate k fs) ds = Inr (take (length fs) (drop k ds))"
proof (induction fs arbitrary: k)
  case Nil
  then show ?case by simp
next
  case (Cons f fs)
  have "stacking fc ec (enumerate (Suc k) fs) ds = Inr (take (length fs) (drop (Suc k) ds))"
    using Cons.prems by (intro Cons.IH) auto
  moreover have k: "k < length ds" using Cons.prems by simp
  moreover have "ds ! k # take (length fs) (drop (Suc k) ds) = take (Suc (length fs)) (drop k ds)"
    using k by (simp add: Cons_nth_drop_Suc take_Suc_Cons[symmetric] del: take_Suc_Cons)
  ultimately show ?case using Cons.prems by simp
qed

lemma sorted_nth0_Min: "sorted s \<Longrightarrow> s \<noteq> [] \<Longrightarrow> s ! 0 = Min (set s)"
  by (cases s) (auto intro!: Min_eqI[symmetric])

lemma sorted_last_Max: "sorted s \<Longrightarrow> s \<noteq> [] \<Longrightarrow> s ! (length s - 1) = Max (set s)"
proof -
  assume a: "sorted s" "s \<noteq> []"
  have "\<And>y. y \<in> set s \<Longrightarrow> y \<le> s ! (length s - 1)"
  proof -
    fix y assume "y \<in> set s"
    then obtain i where "i < length s" "s ! i = y" by (auto simp: in_set_conv_nth)
    then show "y \<le> s ! (length s - 1)"
      using sorted_nth_mono[OF a(1), of i "length s - 1"] by auto
  qed
  moreover have "s ! (length s - 1) \<in> set s" using a(2) by simp
  ultimately show ?thesis by (intro Max_eqI[symmetric]) auto
qed

lemma mid_time_of_nonempty:
  "ts \<noteq> [] \<Longrightarrow> mid_time_of ts = Inr (Min (set ts) + (Max (set ts) - Min (set ts)) / 2)"
proof -
  assume ne: "ts \<noteq> []"
  let ?s = "sort ts"
  have sne: "?s \<noteq> []" using ne by (metis length_sort length_0_conv)
  have h: "?s ! 0 = Min (set ts)" using sorted_nth0_Min[OF sorted_sort sne] by simp
  have l: "?s ! (length ts - Suc 0) = Max (set ts)"
    using sorted_last_Max[OF sorted_sort sne] by simp
  have len: "0 < length ts" using ne by simp
  show ?thesis using len sne
    by (simp add: mid_time_of_def py_index_def Let_def h l Suc_leI)
qed

lemma quality_check_passing:
  assumes "cuts (map fwhm_image aligned_images) (map elong_image aligned_images) = Inr (fc, ec)"
    and "stacking fc ec (enumerate 0 aligned_images) aligned_data = Inr passing"
    and "passing \<noteq> []"
  shows "quality_check aligned_images aligned_data =
           Inr (passing, Min (mjd ` set passing) + (Max (mjd ` set passing) - Min (mjd ` set passing)) / 2)"
  using assms by (simp add: quality_check_def mid_time_of_nonempty)

section \<open>The concrete inputs evaluated\<close>

lemma three_cuts: "cuts (map fwhm_image three_images) (map elong_image three_images) = Inr (3 / 2, 1)"
proof -
  have "map fwhm_image three_images = replicate 3 (3 / 2)"
    and "map elong_image three_images = replicate 3 1"
    by (simp_all add: three_images_def images_def numeral_3_eq_3)
  then show ?thesis by (simp add: cuts_replicate)
qed

lemma three_stacking: "stacking (3 / 2) 1 (enumerate 0 three_images) three_arrays = Inr three_arrays"
  by (simp add: three_images_def three_arrays_def images_def arrays_def)

lemma three_quality_check: "quality_check three_images three_arrays = Inr (three_arrays, 53 / 5)"
proof -
  have "mid_time_of (map mjd three_arrays) = Inr (53 / 5)"
    by (simp add: mid_time_of_def py_index_def three_arrays_def arrays_def)
  then show ?thesis by (simp add: quality_check_def three_cuts three_stacking)
qed

lemma nine_fwhm_cut: "sigma_cut (map fwhm_image nine_images) = [2]"
proof -
  let ?xs = "[1, 1, 1, 1, 1, 1, 1, 1, 2 :: real]"
  have xs: "map fwhm_image nine_images = ?xs" by (simp add: nine_images_def images_def)
  have m: "np_median ?xs = 1" by (simp add: np_median_def Let_def)
  have s: "np_std ?xs = sqrt (8 / 81)" by (simp add: np_std_def np_mean_def power2_eq_square)
  have a: "3 * sqrt (8 / 81 :: real) < 1" by (rule three_sqrt_less) simp_all
  have b: "0 \<le> sqrt (8 / 81 :: real)" by simp
  have t: "three_sigma ?xs = 1 + 3 * sqrt (8 / 81)" by (simp only: three_sigma_def m s)
  have "\<not> (1 > 1 + 3 * sqrt (8 / 81 :: real))" using b by linarith
  moreover have "(2::real) > 1 + 3 * sqrt (8 / 81)" using a by linarith
  ultimately show ?thesis unfolding xs sigma_cut_def t by simp
qed

lemma nine_elong_cut: "sigma_cut (map elong_image nine_images) = []"
proof -
  have "map elong_image nine_images = replicate 9 1"
    by (simp add: nine_images_def images_def eval_nat_numeral)
  then show ?thesis by (simp add: sigma_cut_replicate)
qed

lemma four_quality_check: "quality_check four_images four_arrays = Inr (four_arrays, 5 / 2)"
proof -
  have "map fwhm_image four_images = replicate 4 1" and "map elong_image four_images = replicate 4 1"
    by (simp_all add: four_images_def images_def eval_nat_numeral)
  then have c: "cuts (map fwhm_image four_images) (map elong_image four_images) = Inr (1, 1)"
    by (simp add: cuts_replicate)
  have s: "stacking 1 1 (enumerate 0 four_images) four_arrays = Inr four_arrays"
    by (simp add: four_images_def four_arrays_def images_def arrays_def)
  have "mid_time_of (map mjd four_arrays) = Inr (5 / 2)"
    by (simp add: mid_time_of_def py_index_def four_arrays_def arrays_def)
  then show ?thesis by (simp add: quality_check_def c s)
qed

lemma make_stack_never_returns: "make_stack rdnoise aligned_images aligned_data \<noteq> Inr x"
  by (auto simp: make_stack_def quality_check_tuple_def unpack3_def split: sum.splits)

lemma sigma16:
  "sigma_cut fwhm16 = [2, 2]" "sigma_cut elong16 = [2]" "three_sigma elong16 < 2"
proof -
  have mf: "np_median fwhm16 = 1" and me: "np_median elong16 = 1"
    by (simp_all add: np_median_def Let_def fwhm16_def elong16_def)
  have sf: "np_std fwhm16 = sqrt (7 / 64)"
    by (simp add: np_std_def np_mean_def power2_eq_square fwhm16_def)
  have se: "np_std elong16 = sqrt (15 / 256)"
    by (simp add: np_std_def np_mean_def power2_eq_square elong16_def)
  have af: "3 * sqrt (7 / 64 :: real) < 1" and ae: "3 * sqrt (15 / 256 :: real) < 1"
    by (rule three_sqrt_less; simp)+
  have bf: "0 \<le> sqrt (7 / 64 :: real)" and be: "0 \<le> sqrt (15 / 256 :: real)" by simp_all
  have tf: "three_sigma fwhm16 = 1 + 3 * sqrt (7 / 64)"
    and te: "three_sigma elong16 = 1 + 3 * sqrt (15 / 256)"
    by (simp_all only: three_sigma_def mf me sf se)
  have f1: "\<not> (1 > 1 + 3 * sqrt (7 / 64 :: real))" using bf by linarith
  have f2: "(2::real) > 1 + 3 * sqrt (7 / 64)" using af by linarith
  have e1: "\<not> (1 > 1 + 3 * sqrt (15 / 256 :: real))" using be by linarith
  have e2: "(2::real) > 1 + 3 * sqrt (15 / 256)" using ae by linarith
  show "sigma_cut fwhm16 = [2, 2]" unfolding sigma_cut_def tf using f1 f2 by (simp add: fwhm16_def)
  show "sigma_cut elong16 = [2]" unfolding sigma_cut_def te using e1 e2 by (simp add: elong16_def)
  show "three_sigma elong16 < 2" unfolding te using e2 by simp
qed

lemma sigma10:
  "sigma_cut fwhm10 = [2]" "sigma_cut elong10 = [3]"
  "three_sigma fwhm10 = 19 / 10" "three_sigma elong10 = 14 / 5"
proof -
  have mf: "np_median fwhm10 = 1" and me: "np_median elong10 = 1"
    by (simp_all add: np_median_def Let_def fwhm10_def elong10_def)
  have "np_std fwhm10 = sqrt ((3 / 10)\<^sup>2)"
    by (simp add: np_std_def np_mean_def power2_eq_square fwhm10_def)
  then have sf: "np_std fwhm10 = 3 / 10" by (simp only: real_sqrt_abs)
  have "np_std elong10 = sqrt ((3 / 5)\<^sup>2)"
    by (simp add: np_std_def np_mean_def power2_eq_square elong10_def)
  then have se: "np_std elong10 = 3 / 5" by (simp only: real_sqrt_abs)
  show tf: "three_sigma fwhm10 = 19 / 10" unfolding three_sigma_def mf sf by simp
  show te: "three_sigma elong10 = 14 / 5" unfolding three_sigma_def me se by simp
  show "sigma_cut fwhm10 = [2]" unfolding sigma_cut_def tf by (simp add: fwhm10_def)
  show "sigma_cut elong10 = [3]" unfolding sigma_cut_def te by (simp add: elong10_def)
qed

section \<open>Facts about the sky frames\<close>

lemma time_diff_eq:
  assumes "j < length tlist"
  shows "time_diff tlist j =
           Inr (sort (map (\<lambda>k. (\<bar>tlist ! j - tlist ! k\<bar>, k)) [0..<length tlist]))"
proof -
  have "map (\<lambda>(k, n2). (\<bar>tlist ! j - n2\<bar>, k)) (enumerate 0 tlist) =
        map (\<lambda>k. (\<bar>tlist ! j - tlist ! k\<bar>, k)) [0..<length tlist]"
    by (rule nth_equalityI) (simp_all add: nth_enumerate_eq)
  moreover have "tlist \<noteq> []" using assms by auto
  ultimately show ?thesis using assms by (simp add: time_diff_def)
qed

lemma take_drop_strict:
  assumes "sorted_wrt (<) (xs :: ('a::linorder) list)" "x \<in> set (take n xs)" "y \<in> set xs" "y \<notin> set (take n xs)"
  shows "x < y"
proof -
  have "y \<in> set (drop n xs)"
    using assms(3,4) by (metis Un_iff append_take_drop_id set_append)
  moreover have "sorted_wrt (<) (take n xs @ drop n xs)" using assms(1) by simp
  ultimately show ?thesis using assms(2) unfolding sorted_wrt_append by blast
qed

lemma pick_in_range:
  "\<forall>k \<in> set ks. k < length xs \<Longrightarrow> pick xs ks = Inr (map ((!) xs) ks)"
  by (induction ks) auto

lemma sky_data_selected:
  assumes "j < length tlist" and "length processed = length tlist"
  shows "\<exists>ks. sky_indices tlist j = Inr ks \<and> sky_data processed tlist j = Inr (map ((!) processed) ks)"
proof -
  let ?L = "sort (map (\<lambda>k. (\<bar>tlist ! j - tlist ! k\<bar>, k)) [0..<length tlist])"
  have ks: "sky_indices tlist j = Inr (map snd (take 5 ?L))"
    by (simp add: sky_indices_def time_diff_eq[OF assms(1)])
  have "set (take 5 ?L) \<subseteq> set ?L" by (rule set_take_subset)
  then have "\<forall>k \<in> set (map snd (take 5 ?L)). k < length processed"
    using assms(2) by auto
  then have "pick processed (map snd (take 5 ?L)) = Inr (map ((!) processed) (map snd (take 5 ?L)))"
    by (rule pick_in_range)
  then show ?thesis using ks by (simp add: sky_data_def)
qed

section \<open>Facts about sort\_files and the calibration stages\<close>

lemma classified_rows:
  "file_table (classified tel path f hdr tv ft st) =
     file_table st @
       [\<lparr>row_File = (if ft = ''SPEC'' then path @ ''spec/''
                     else if ft = ''BAD'' then path @ ''bad/'' else path @ ''raw/'') @ basename f,
         row_Target = filter (\<lambda>c. c \<noteq> CHR '' '') tv,
         row_Filter = filter_keyword tel hdr, row_Exp = exptime tel hdr, row_Type = ft,
         row_Time = (if ft = ''SCIENCE'' then Some (time_format tel hdr) else None)\<rparr>]"
  by (simp add: classified_def Let_def)

lemma sort_one_rows:
  "sort_one tel path file st = Inr st' \<Longrightarrow>
   length (file_table st') = length (file_table st) + (if header_read tel file then 1 else 0)"
  by (auto simp: sort_one_def header_read_def classified_rows Let_def
           split: option.splits sum.splits if_splits)

lemma sort_loop_rows:
  "sort_loop tel path fs st = Inr st' \<Longrightarrow>
   length (file_table st') = length (file_table st) + length (filter (header_read tel) fs)"
proof (induction fs arbitrary: st)
  case Nil
  then show ?case by simp
next
  case (Cons f fs)
  then obtain st1 where 1: "sort_one tel path f st = Inr st1" and 2: "sort_loop tel path fs st1 = Inr st'"
    by (auto split: sum.splits)
  show ?case using sort_one_rows[OF 1] Cons.IH[OF 2] by simp
qed

lemma sort_files_rows:
  "sort_files fs tel path = Inr st \<Longrightarrow> length (file_table st) = length (filter (header_read tel) fs)"
  using sort_loop_rows[of tel path fs initial_state st] by (simp add: sort_files_def initial_state_def)

lemma dict_append_first: "d \<noteq> [] \<Longrightarrow> fst (hd (dict_append d k v)) = fst (hd d)"
  by (cases d) auto

lemma dict_append_ne: "dict_append d k v \<noteq> []"
  by (cases d) (auto split: if_splits)

lemma classified_BIAS_first:
  "cal_list st \<noteq> [] \<Longrightarrow> fst (hd (cal_list st)) = ''BIAS'' \<Longrightarrow>
   cal_list (classified tel path f hdr tv ft st) \<noteq> [] \<and>
   fst (hd (cal_list (classified tel path f hdr tv ft st))) = ''BIAS''"
  by (simp add: classified_def Let_def dict_append_first dict_append_ne)

lemma sort_one_BIAS_first:
  "sort_one tel path file st = Inr st' \<Longrightarrow> cal_list st \<noteq> [] \<Longrightarrow> fst (hd (cal_list st)) = ''BIAS'' \<Longrightarrow>
   cal_list st' \<noteq> [] \<and> fst (hd (cal_list st')) = ''BIAS''"
  by (auto simp: sort_one_def Let_def classified_BIAS_first split: option.splits sum.splits if_splits)

lemma sort_loop_BIAS_first:
  "sort_loop tel path fs st = Inr st' \<Longrightarrow> cal_list st \<noteq> [] \<Longrightarrow> fst (hd (cal_list st)) = ''BIAS'' \<Longrightarrow>
   cal_list st' \<noteq> [] \<and> fst (hd (cal_list st')) = ''BIAS''"
proof (induction fs arbitrary: st)
  case Nil
  then show ?case by simp
next
  case (Cons f fs)
  then obtain st1 where 1: "sort_one tel path f st = Inr st1" and 2: "sort_loop tel path fs st1 = Inr st'"
    by (auto split: sum.splits)
  from sort_one_BIAS_first[OF 1 Cons.prems(2,3)] Cons.IH[OF 2] show ?case by simp
qed

lemma sort_files_BIAS_first:
  "sort_files fs tel path = Inr st \<Longrightarrow> \<exists>frames rest. cal_list st = (''BIAS'', frames) # rest"
proof -
  assume "sort_files fs tel path = Inr st"
  then have "cal_list st \<noteq> [] \<and> fst (hd (cal_list st)) = ''BIAS''"
    using sort_loop_BIAS_first[of tel path fs initial_state st]
    by (simp add: sort_files_def initial_state_def)
  then show ?thesis by (cases "cal_list st") auto
qed

lemma bias_key_BIAS: "bias_key tel skip_red red_path cals ''BIAS'' nw = Inl IndexError"
  by (cases nw) (simp add: bias_key_def py_index_def)

lemma bias_stage_BIAS_first:
  "bias tel \<Longrightarrow> bias_stage tel skip_red red_path ((''BIAS'', frames) # rest) w = Inl IndexError"
  by (simp add: bias_stage_def bias_key_BIAS)

lemma sky_flat_key_skip:
  assumes "py_index (split_us fil_list) 0 = Inr fil"
    and "py_index (split_us fil_list) 1 = Inr amp"
    and "py_index (split_us fil_list) 2 = Inr binn"
    and "skip_red" and "list_all (exists (files w)) (flat_name tel flat_path fil amp binn)"
  shows "sky_flat_key tel skip_red red_path flat_path (fil_list, frames) w = Inr w"
  using assms by (simp add: sky_flat_key_def)

lemma flat_key_other:
  "\<not> py_in ''FLAT'' cal \<Longrightarrow>
   flat_key tel skip_red use_dome_flats red_path flat_path (cal, frames) w = Inr w"
  by (simp add: flat_key_def)

lemma flat_key_parts:
  "py_in ''FLAT'' ''FLAT_V_A_1x1''"
  "py_index (split_us ''FLAT_V_A_1x1'') 1 = Inr ''V''"
  "py_index (split_us ''FLAT_V_A_1x1'') 2 = Inr ''A''"
  "py_index (split_us ''FLAT_V_A_1x1'') 3 = Inr ''1x1''"
  by (simp_all add: py_index_def)

lemma flat_loop_skip:
  assumes "\<forall>(cal, frames) \<in> set cals. py_in ''FLAT'' cal \<longrightarrow>
             (\<exists>fil amp binn. py_index (split_us cal) 1 = Inr fil \<and> py_index (split_us cal) 2 = Inr amp \<and>
                py_index (split_us cal) 3 = Inr binn \<and>
                list_all (exists (files w)) (flat_name tel flat_path fil amp binn))"
  shows "flat_loop tel True use_dome_flats red_path flat_path cals w = Inr w"
  using assms
proof (induction cals)
  case Nil
  then show ?case by simp
next
  case (Cons entry cals)
  obtain cal frames where e: "entry = (cal, frames)" by (cases entry)
  have "flat_key tel True use_dome_flats red_path flat_path (cal, frames) w = Inr w"
  proof (cases "py_in ''FLAT'' cal")
    case True
    with Cons.prems e obtain fil amp binn where
      "py_index (split_us cal) 1 = Inr fil" "py_index (split_us cal) 2 = Inr amp"
      "py_index (split_us cal) 3 = Inr binn"
      "list_all (exists (files w)) (flat_name tel flat_path fil amp binn)" by auto
    then show ?thesis using True by (simp add: flat_key_def)
  next
    case False
    then show ?thesis by (simp add: flat_key_def)
  qed
  then show ?case using Cons e by simp
qed

lemma flat_stage_skip:
  assumes "\<forall>(cal, frames) \<in> set cals. py_in ''FLAT'' cal \<longrightarrow>
             (\<exists>fil amp binn. py_index (split_us cal) 1 = Inr fil \<and> py_index (split_us cal) 2 = Inr amp \<and>
                py_index (split_us cal) 3 = Inr binn \<and>
                list_all (exists (files w)) (flat_name tel flat_path fil amp binn))"
    and "instrument_wavelength tel = ''OPT''"
  shows "flat_stage tel True use_dome_flats red_path flat_path cals skies w = Inr w"
  using flat_loop_skip[OF assms(1)] assms(2) by (simp add: flat_stage_def)

lemma stages_disabled:
  "\<not> bias tel \<Longrightarrow> bias_stage tel skip_red red_path cals w = Inr w"
  "\<not> dark tel \<Longrightarrow> dark_stage tel skip_red red_path cals w = Inr w"
  by (simp_all add: bias_stage_def dark_stage_def)

lemma nir_sort_files:
  "map_sum id cal_list (sort_files [dome_flat_V, science_K] nir_classifier ''/data/'') =
     Inr [(''BIAS'', []), (''FLAT_V_A_1x1'', [''/data/raw/f.fits''])]"
  "map_sum id sky_list (sort_files [dome_flat_V, science_K] nir_classifier ''/data/'') =
     Inr [(''K_A_1x1'', [''/data/raw/s.fits''])]"
proof -
  let ?f = "[''OBJECT'' \<mapsto> ''dome'', ''IMAGETYP'' \<mapsto> ''domeflat'', ''OBSMODE'' \<mapsto> ''imaging'',
             ''FILTER'' \<mapsto> ''V_A_1x1'', ''EXPTIME'' \<mapsto> ''5'']"
  let ?s = "[''OBJECT'' \<mapsto> ''GRB 1'', ''IMAGETYP'' \<mapsto> ''object'', ''OBSMODE'' \<mapsto> ''imaging'',
             ''FILTER'' \<mapsto> ''K_A_1x1'', ''EXPTIME'' \<mapsto> ''30'']"
  have tf: "file_type_of nir_classifier ?f = Inr ''FLAT''"
    by (simp add: file_type_of_def nir_classifier_def header_contains_def)
  have ts: "file_type_of nir_classifier ?s = Inr ''SCIENCE''"
    by (simp add: file_type_of_def nir_classifier_def header_contains_def header_equals_def)
  have 1: "sort_one nir_classifier ''/data/'' dome_flat_V st =
             Inr (classified nir_classifier ''/data/'' ''/data/f.fits'' ?f ''dome'' ''FLAT'' st)" for st
    using tf by (simp add: sort_one_def dome_flat_V_def) (simp add: nir_classifier_def)
  have 2: "sort_one nir_classifier ''/data/'' science_K st =
             Inr (classified nir_classifier ''/data/'' ''/data/s.fits'' ?s ''GRB 1'' ''SCIENCE'' st)" for st
    using ts by (simp add: sort_one_def science_K_def) (simp add: nir_classifier_def)
  have rf: "py_replace ''/data/'' ''/data/raw/'' ''/data/f.fits'' = ''/data/raw/f.fits''"
    and rs: "py_replace ''/data/'' ''/data/raw/'' ''/data/s.fits'' = ''/data/raw/s.fits''"
    by (simp_all add: py_replace.simps)
  have r: "sort_files [dome_flat_V, science_K] nir_classifier ''/data/'' =
          Inr (classified nir_classifier ''/data/'' ''/data/s.fits'' ?s ''GRB 1'' ''SCIENCE''
                (classified nir_classifier ''/data/'' ''/data/f.fits'' ?f ''dome'' ''FLAT'' initial_state))"
    by (simp add: sort_files_def 1 2)
  show "map_sum id cal_list (sort_files [dome_flat_V, science_K] nir_classifier ''/data/'') =
     Inr [(''BIAS'', []), (''FLAT_V_A_1x1'', [''/data/raw/f.fits''])]"
    unfolding r by (simp add: classified_def Let_def rf rs) (simp add: nir_classifier_def initial_state_def)
  show "map_sum id sky_list (sort_files [dome_flat_V, science_K] nir_classifier ''/data/'') =
     Inr [(''K_A_1x1'', [''/data/raw/s.fits''])]"
    unfolding r by (simp add: classified_def Let_def rf rs) (simp add: nir_classifier_def initial_state_def)
qed

lemma nir_master_frames:
  "master_frames nir_camera True False ''/data//red/'' ''/data//red/''
     [(''BIAS'', []), (''FLAT_V_A_1x1'', [''/data/raw/f.fits''])]
     [(''K_A_1x1'', [''/data/raw/s.fits''])] empty_world =
   Inr \<lparr> files = [''/data//red/mflat_K_A_1x1.fits'' \<mapsto> ''master flat''],
         builds = [Create_flat [''/data/raw/s.fits''] ''K'' ''A'' ''1x1''] \<rparr>"
proof -
  have b: "\<not> bias nir_camera" "\<not> dark nir_camera" "flat nir_camera"
    "instrument_wavelength nir_camera = ''NIR''"
    by (simp_all add: nir_camera_def optical_def)
  have 1: "flat_key nir_camera True False ''/data//red/'' ''/data//red/'' (''BIAS'', []) empty_world =
             Inr empty_world"
    by (simp add: flat_key_def)
  have 2: "flat_key nir_camera True False ''/data//red/'' ''/data//red/''
             (''FLAT_V_A_1x1'', [''/data/raw/f.fits'']) empty_world = Inr empty_world"
    by (simp add: flat_key_def py_index_def b) (simp add: nir_camera_def optical_def empty_world_def exists_def)
  have 3: "sky_flat_key nir_camera True ''/data//red/'' ''/data//red/''
             (''K_A_1x1'', [''/data/raw/s.fits'']) empty_world =
           Inr \<lparr> files = [''/data//red/mflat_K_A_1x1.fits'' \<mapsto> ''master flat''],
                 builds = [Create_flat [''/data/raw/s.fits''] ''K'' ''A'' ''1x1''] \<rparr>"
    by (simp add: sky_flat_key_def py_index_def b) (simp add: nir_camera_def optical_def empty_world_def exists_def)
  show ?thesis
    by (simp add: master_frames_def stages_disabled b flat_stage_def 1 2 3)
qed

section \<open>The quality gate\<close>

text \<open>
  C1, as amended. Relaxation is joint: with \<open>cap = floor(0.1 N)\<close>, when neither
  metric has more than \<open>cap\<close> three-sigma outliers both metrics keep median + 3 std;
  when either metric has more than \<open>cap\<close>, and \<open>cap\<close> is at least 1 and both metrics
  have at least \<open>cap\<close> outliers, both thresholds are replaced, each by the \<open>cap\<close>-th
  largest outlier of its own metric.
\<close>

theorem cuts_relax_jointly:
  "(length (sigma_cut fwhm) \<le> ten_percent (length fwhm) \<and>
    length (sigma_cut elong) \<le> ten_percent (length fwhm) \<longrightarrow>
      cuts fwhm elong = Inr (three_sigma fwhm, three_sigma elong)) \<and>
   ((ten_percent (length fwhm) < length (sigma_cut fwhm) \<or>
     ten_percent (length fwhm) < length (sigma_cut elong)) \<and>
    1 \<le> ten_percent (length fwhm) \<and>
    ten_percent (length fwhm) \<le> length (sigma_cut fwhm) \<and>
    ten_percent (length fwhm) \<le> length (sigma_cut elong) \<longrightarrow>
      cuts fwhm elong =
        Inr (kth_largest (ten_percent (length fwhm)) (sigma_cut fwhm),
             kth_largest (ten_percent (length fwhm)) (sigma_cut elong)))"
proof (intro conjI impI)
  assume "length (sigma_cut fwhm) \<le> ten_percent (length fwhm) \<and>
          length (sigma_cut elong) \<le> ten_percent (length fwhm)"
  then show "cuts fwhm elong = Inr (three_sigma fwhm, three_sigma elong)"
    by (auto simp: cuts_def Let_def)
next
  let ?cap = "ten_percent (length fwhm)"
  assume a: "(?cap < length (sigma_cut fwhm) \<or> ?cap < length (sigma_cut elong)) \<and>
             1 \<le> ?cap \<and> ?cap \<le> length (sigma_cut fwhm) \<and> ?cap \<le> length (sigma_cut elong)"
  then have i: "0 \<le> int ?cap - 1" "nat (int ?cap - 1) = ?cap - 1" by auto
  have "py_index (sorted_reverse (sigma_cut fwhm)) (int ?cap - 1) = Inr (kth_largest ?cap (sigma_cut fwhm))"
    using a i by (auto simp: py_index_def sorted_reverse_def kth_largest_def)
  moreover
  have "py_index (sorted_reverse (sigma_cut elong)) (int ?cap - 1) = Inr (kth_largest ?cap (sigma_cut elong))"
    using a i by (auto simp: py_index_def sorted_reverse_def kth_largest_def)
  ultimately show "cuts fwhm elong =
      Inr (kth_largest ?cap (sigma_cut fwhm), kth_largest ?cap (sigma_cut elong))"
    using a by (auto simp: cuts_def Let_def)
qed

theorem cuts_relax_jointly_witness:
  "cuts fwhm10 elong10 = Inr (19 / 10, 14 / 5) \<and> cuts fwhm16 elong16 = Inr (2, 2)"
proof
  have "length fwhm10 = 10" by (simp add: fwhm10_def)
  then show "cuts fwhm10 elong10 = Inr (19 / 10, 14 / 5)"
    using cuts_relax_jointly[of fwhm10 elong10] by (simp add: sigma10 ten_percent_def)
next
  have "length fwhm16 = 16" by (simp add: fwhm16_def)
  then show "cuts fwhm16 elong16 = Inr (2, 2)"
    using cuts_relax_jointly[of fwhm16 elong16]
    by (simp add: sigma16 ten_percent_def kth_largest_def)
qed

text \<open>
  C1 as stated fails: of sixteen frames, two are FWHM outliers and one is an elongation
  outlier, so with \<open>cap = 1\<close> only the FWHM count exceeds the cap; the code replaces
  the elongation threshold as well, by 2, which is above median + 3 std.
\<close>

theorem per_metric_relaxation_counterexample:
  "length (sigma_cut elong16) \<le> ten_percent (length fwhm16) \<and>
   per_metric_threshold (ten_percent (length fwhm16)) elong16 < 2 \<and>
   cuts fwhm16 elong16 = Inr (2, 2) \<and>
   cuts fwhm16 elong16 \<noteq>
     Inr (per_metric_threshold (ten_percent (length fwhm16)) fwhm16,
          per_metric_threshold (ten_percent (length fwhm16)) elong16)"
proof -
  have l: "length fwhm16 = 16" by (simp add: fwhm16_def)
  have c: "cuts fwhm16 elong16 = Inr (2, 2)"
    unfolding cuts_def sigma16 l
    by (simp add: ten_percent_def py_index_def sorted_reverse_def)
  have p: "per_metric_threshold (ten_percent (length fwhm16)) elong16 = three_sigma elong16"
    by (simp add: per_metric_threshold_def sigma16 l ten_percent_def)
  show ?thesis using sigma16(3) by (simp add: c p) (simp add: sigma16 l ten_percent_def)
qed

text \<open>
  C9. When all frames have the same FWHM and the same elongation, every frame is kept:
  the function returns the whole of \<open>aligned_data\<close>, in its order.
\<close>

theorem identical_metrics_reject_nothing:
  assumes "aligned_images \<noteq> []"
    and "length aligned_data = length aligned_images"
    and "\<forall>f \<in> set aligned_images. fwhm_image f = a \<and> elong_image f = b"
  shows "quality_check aligned_images aligned_data =
           Inr (aligned_data,
                Min (mjd ` set aligned_data) +
                (Max (mjd ` set aligned_data) - Min (mjd ` set aligned_data)) / 2)"
proof -
  let ?n = "length aligned_images"
  have n: "0 < ?n" using assms(1) by simp
  have "map fwhm_image aligned_images = replicate ?n a"
    using assms(3) constant_list[of "map fwhm_image aligned_images" a] by simp
  moreover have "map elong_image aligned_images = replicate ?n b"
    using assms(3) constant_list[of "map elong_image aligned_images" b] by simp
  ultimately have c: "cuts (map fwhm_image aligned_images) (map elong_image aligned_images) = Inr (a, b)"
    using n by (simp add: cuts_replicate)
  have "stacking a b (enumerate 0 aligned_images) aligned_data =
          Inr (take ?n (drop 0 aligned_data))"
    using assms(2,3) by (intro stacking_keeps_all) auto
  then have s: "stacking a b (enumerate 0 aligned_images) aligned_data = Inr aligned_data"
    using assms(2) by simp
  have "aligned_data \<noteq> []" using assms(1,2) by auto
  then show ?thesis using quality_check_passing[OF c s] by simp
qed

theorem identical_metrics_reject_nothing_witness:
  "quality_check four_images four_arrays = Inr (four_arrays, 5 / 2)"
proof -
  have "four_images \<noteq> []" "length four_arrays = length four_images"
    "\<forall>f \<in> set four_images. fwhm_image f = 1 \<and> elong_image f = 1"
    by (simp_all add: four_images_def four_arrays_def images_def arrays_def)
  from identical_metrics_reject_nothing[OF this]
  show ?thesis by (simp add: four_arrays_def arrays_def)
qed

text \<open>
  C7. When the gate keeps a non-empty list of frames, the function returns it with the
  mid-time min + (max - min) / 2 of the observation times of the kept frames.
\<close>

theorem mid_time_is_midpoint:
  assumes "cuts (map fwhm_image aligned_images) (map elong_image aligned_images) = Inr (fwhm_cut, elong_cut)"
    and "stacking fwhm_cut elong_cut (enumerate 0 aligned_images) aligned_data = Inr passing"
    and "passing \<noteq> []"
  shows "quality_check aligned_images aligned_data =
           Inr (passing,
                Min (mjd ` set passing) + (Max (mjd ` set passing) - Min (mjd ` set passing)) / 2)"
  using assms by (rule quality_check_passing)

text \<open>The times 10.0, 10.5 and 11.2 give the mid-time 10.6.\<close>

theorem mid_time_is_midpoint_witness:
  "map mjd three_arrays = [10, 105 / 10, 112 / 10] \<and>
   quality_check three_images three_arrays = Inr (three_arrays, 106 / 10)"
proof -
  have "three_arrays \<noteq> []" by (simp add: three_arrays_def arrays_def)
  from mid_time_is_midpoint[OF three_cuts three_stacking this]
  show ?thesis by (simp add: three_arrays_def arrays_def)
qed

text \<open>
  C10. The relaxation branch can fail: when the FWHM outliers are more than \<open>cap\<close> and
  the elongation outliers are fewer than \<open>cap\<close>, or there is none, the index
  \<open>cap - 1\<close> is outside the sorted elongation outliers and the function ends
  with IndexError.
\<close>

theorem relaxation_raises_IndexError:
  assumes "ten_percent (length aligned_images) < length (sigma_cut (map fwhm_image aligned_images))"
    and "length (sigma_cut (map elong_image aligned_images)) < ten_percent (length aligned_images)
         \<or> sigma_cut (map elong_image aligned_images) = []"
  shows "quality_check aligned_images aligned_data = Inl IndexError"
proof -
  let ?cap = "ten_percent (length aligned_images)"
  let ?f = "sigma_cut (map fwhm_image aligned_images)"
  let ?e = "sigma_cut (map elong_image aligned_images)"
  have f: "\<exists>v. py_index (sorted_reverse ?f) (int ?cap - 1) = Inr v"
    using assms(1) by (cases "?cap = 0") (auto simp: py_index_def sorted_reverse_def Suc_le_eq)
  have e: "py_index (sorted_reverse ?e) (int ?cap - 1) = Inl IndexError"
    using assms(2) by (cases "?cap = 0") (auto simp: py_index_def sorted_reverse_def)
  have "cuts (map fwhm_image aligned_images) (map elong_image aligned_images) = Inl IndexError"
    using assms(1) f e by (auto simp: cuts_def Let_def)
  then show ?thesis by (simp add: quality_check_def)
qed

theorem relaxation_raises_IndexError_witness:
  "ten_percent (length nine_images) < length (sigma_cut (map fwhm_image nine_images)) \<and>
   sigma_cut (map elong_image nine_images) = [] \<and>
   quality_check nine_images nine_arrays = Inl IndexError"
proof -
  have a: "ten_percent (length nine_images) < length (sigma_cut (map fwhm_image nine_images))"
    by (simp add: nine_fwhm_cut) (simp add: nine_images_def images_def ten_percent_def)
  have b: "length (sigma_cut (map elong_image nine_images)) < ten_percent (length nine_images)
           \<or> sigma_cut (map elong_image nine_images) = []"
    by (simp add: nine_elong_cut)
  from relaxation_raises_IndexError[OF a b] a show ?thesis by (simp add: nine_elong_cut)
qed

section \<open>The sky frames of an NIR group\<close>

text \<open>
  C6, as amended. For frame \<open>j\<close> of a group with its list of observation times, the
  sky is built from the frames at exactly min(5, N) distinct indices; every chosen frame
  is nearer in time to frame \<open>j\<close> than every frame not chosen, the smaller index
  counting as nearer at equal distance; and frame \<open>j\<close> itself is chosen when fewer than
  5 frames before it in the list have its observation time. The choice is a function of
  the times and \<open>j\<close> alone.
\<close>

theorem sky_indices_nearest:
  assumes j: "j < length tlist"
  defines "d \<equiv> \<lambda>k. \<bar>tlist ! j - tlist ! k\<bar>"
  shows "\<exists>ks. sky_indices tlist j = Inr ks \<and>
          length ks = min 5 (length tlist) \<and> distinct ks \<and> set ks \<subseteq> {..<length tlist} \<and>
          (\<forall>k \<in> set ks. \<forall>k' < length tlist. k' \<notin> set ks \<longrightarrow>
             d k < d k' \<or> (d k = d k' \<and> k < k')) \<and>
          (length (filter (\<lambda>k. tlist ! k = tlist ! j) [0..<j]) < 5 \<longrightarrow> j \<in> set ks)"
proof -
  let ?n = "length tlist"
  let ?h = "\<lambda>k. (d k, k)"
  let ?L = "sort (map ?h [0..<?n])"
  let ?ks = "map snd (take 5 ?L)"
  have td: "time_diff tlist j = Inr ?L" using time_diff_eq[OF j] by (simp add: d_def)
  have res: "sky_indices tlist j = Inr ?ks" by (simp add: sky_indices_def td)
  have setL: "set ?L = ?h ` {..<?n}" by (auto simp: atLeast0LessThan)
  have dL: "distinct ?L" by (simp add: distinct_map inj_on_def)
  have sL: "sorted_wrt (<) ?L" using dL by (simp add: strict_sorted_iff)
  have snd_h: "\<And>p. p \<in> set ?L \<Longrightarrow> p = ?h (snd p)" using setL by auto
  have "inj_on snd (set ?L)"
    by (rule inj_onI) (metis snd_h)
  then have dks_all: "distinct (map snd ?L)" using dL by (simp add: distinct_map)
  have set_all: "set (map snd ?L) = {..<?n}"
    unfolding set_map setL by (auto simp: image_image)
  have len: "length ?ks = min 5 ?n" by simp
  have dks: "distinct ?ks" using dks_all by (simp add: take_map[symmetric] del: take_map)
  have sub: "set ?ks \<subseteq> {..<?n}"
    using set_all set_take_subset[of 5 "map snd ?L"] by (simp add: take_map[symmetric] del: take_map)
  have in_take: "\<And>k. k \<in> set ?ks \<Longrightarrow> ?h k \<in> set (take 5 ?L)"
  proof -
    fix k assume "k \<in> set ?ks"
    then obtain p where p: "p \<in> set (take 5 ?L)" "snd p = k" by auto
    then have "p \<in> set ?L" by (meson in_set_takeD)
    then show "?h k \<in> set (take 5 ?L)" using snd_h p by metis
  qed
  have notin_take: "\<And>k. k \<notin> set ?ks \<Longrightarrow> ?h k \<notin> set (take 5 ?L)"
    by (metis (no_types, lifting) image_eqI set_map snd_conv)
  have sep: "\<forall>k \<in> set ?ks. \<forall>k' < ?n. k' \<notin> set ?ks \<longrightarrow> d k < d k' \<or> (d k = d k' \<and> k < k')"
  proof (intro ballI allI impI)
    fix k k' assume k: "k \<in> set ?ks" and k': "k' < ?n" "k' \<notin> set ?ks"
    have "?h k' \<in> set ?L" using k'(1) setL by blast
    then have "?h k < ?h k'"
      using take_drop_strict[OF sL in_take[OF k] _ notin_take[OF k'(2)]] by blast
    then show "d k < d k' \<or> (d k = d k' \<and> k < k')" by (auto simp: less_prod_def)
  qed
  have self: "length (filter (\<lambda>k. tlist ! k = tlist ! j) [0..<j]) < 5 \<longrightarrow> j \<in> set ?ks"
  proof (intro impI, rule ccontr)
    assume few: "length (filter (\<lambda>k. tlist ! k = tlist ! j) [0..<j]) < 5" and nj: "j \<notin> set ?ks"
    have hj: "?h j \<in> set ?L" using j setL by blast
    have below: "\<And>k. k \<in> set ?ks \<Longrightarrow> k < j \<and> tlist ! k = tlist ! j"
    proof -
      fix k assume k: "k \<in> set ?ks"
      have "?h k < ?h j"
        using take_drop_strict[OF sL in_take[OF k] hj notin_take[OF nj]] .
      moreover have "d j = 0" by (simp add: d_def)
      moreover have "0 \<le> d k" by (simp add: d_def)
      ultimately have "d k = 0 \<and> k < j" by (auto simp: less_prod_def)
      then show "k < j \<and> tlist ! k = tlist ! j" by (auto simp: d_def)
    qed
    have "?h j \<in> set (drop 5 ?L)"
      using hj notin_take[OF nj] by (metis Un_iff append_take_drop_id set_append)
    then have "5 < length ?L" by (metis drop_all empty_iff empty_set not_le_imp_less)
    then have l5: "length ?ks = 5" by simp
    have "set ?ks \<subseteq> set (filter (\<lambda>k. tlist ! k = tlist ! j) [0..<j])"
      using below by auto
    then have "card (set ?ks) \<le> card (set (filter (\<lambda>k. tlist ! k = tlist ! j) [0..<j]))"
      by (intro card_mono) auto
    also have "\<dots> \<le> length (filter (\<lambda>k. tlist ! k = tlist ! j) [0..<j])" by (rule card_length)
    finally show False using few l5 distinct_card[OF dks] by simp
  qed
  show ?thesis using res len dks sub sep self by blast
qed


theorem sky_indices_nearest_witness:
  "3 < length seven_times \<and>
   length (filter (\<lambda>k. seven_times ! k = seven_times ! 3) [0..<3]) < 5 \<and>
   sky_indices seven_times 3 = Inr [3, 2, 4, 1, 5]"
proof -
  have l: "3 < length seven_times" by (simp add: seven_times_def)
  have f: "length (filter (\<lambda>k. seven_times ! k = seven_times ! 3) [0..<3]) < 5"
    by (rule le_less_trans[OF length_filter_le]) simp
  from sky_indices_nearest[OF l] f obtain ks
    where ks: "sky_indices seven_times 3 = Inr ks" "length ks = min 5 (length seven_times)" "3 \<in> set ks"
    by blast
  have "sky_indices seven_times 3 = Inr [3, 2, 4, 1, 5]"
    by (simp add: sky_indices_def time_diff_def seven_times_def)
  then show ?thesis using l f ks by simp
qed

text \<open>
  C6 as stated fails: when the six frames of a group have the same observation time, the
  sky of the last frame is built from the first five, and the frame itself is not
  among them.
\<close>

theorem sky_without_the_frame_counterexample:
  "5 < length six_times \<and> sky_indices six_times 5 = Inr [0, 1, 2, 3, 4] \<and>
   5 \<notin> set [0, 1, 2, 3, 4 :: nat]"
  by (simp add: sky_indices_def time_diff_def six_times_def)

section \<open>The median stack\<close>

text \<open>
  C5. quality\_check returns two values, the kept frames and the mid-time, and no total
  exposure; line 362 of main\_pipeline.py unpacks the result into three names, so for
  three frames that the gate keeps, making the stack ends with ValueError and no EXPTOT
  card is written.
\<close>

theorem make_stack_raises_ValueError:
  "quality_check_tuple three_images three_arrays = Inr [PyArrays three_arrays, PyFloat (53 / 5)] \<and>
   make_stack 5 three_images three_arrays = Inl ValueError"
  by (simp add: make_stack_def quality_check_tuple_def three_quality_check unpack3_def)

text \<open>
  C4. With base read noise 5 and four frames that all pass the gate, making the stack
  ends with ValueError at line 362, where the two values that quality\_check returns
  are unpacked into three names. Lines 369--370 are not reached: no RDNOISE card with
  5 / sqrt 4 = 2.5 and no NFILES card with 4 is written.
\<close>

theorem stack_of_four_frames_raises_ValueError:
  "quality_check four_images four_arrays = Inr (four_arrays, 5 / 2) \<and>
   length four_arrays = 4 \<and>
   make_stack 5 four_images four_arrays = Inl ValueError"
proof -
  have "length four_arrays = 4" by (simp add: four_arrays_def arrays_def)
  moreover have "make_stack 5 four_images four_arrays = Inl ValueError"
    by (simp add: make_stack_def quality_check_tuple_def four_quality_check unpack3_def)
  ultimately show ?thesis using four_quality_check by simp
qed

section \<open>Classification and calibration\<close>

text \<open>
  C3. A raw file that opens but has no extension \<open>raw_header_ext\<close> is moved to
  \<^verbatim>\<open>bad/\<close> and the loop continues before line 150: it gets no row and is not
  counted. Of two opened files, one with the primary extension only and one that matches
  no predicate, both are moved to \<^verbatim>\<open>bad/\<close>, and the table holds one row, of type
  BAD with no time, for the second.
\<close>

theorem unreadable_header_leaves_no_row:
  "map_sum id file_table (sort_files [primary_only, unknown_frame] imager ''/data/'') =
     Inr [\<lparr>row_File = ''/data/bad/u.fits'', row_Target = ''test'', row_Filter = ''K'',
            row_Exp = ''1'', row_Type = ''BAD'', row_Time = None\<rparr>] \<and>
   map_sum id moved (sort_files [primary_only, unknown_frame] imager ''/data/'') =
     Inr [(''/data/p.fits'', ''/data/bad/''), (''/data/u.fits'', ''/data/bad/'')] \<and>
   map_sum id bad_num (sort_files [primary_only, unknown_frame] imager ''/data/'') = Inr 1"
proof -
  let ?h = "[''OBJECT'' \<mapsto> ''test'', ''OBSMODE'' \<mapsto> ''align'', ''APTYPE'' \<mapsto> ''open'',
             ''FILTER'' \<mapsto> ''K'', ''EXPTIME'' \<mapsto> ''1'']"
  have t: "file_type_of imager ?h = Inr ''BAD''"
    by (simp add: file_type_of_def imager_def header_equals_def)
  have 1: "sort_one imager ''/data/'' primary_only initial_state =
             Inr (initial_state\<lparr>moved := [(''/data/p.fits'', ''/data/bad/'')]\<rparr>)"
    by (simp add: sort_one_def imager_def primary_only_def initial_state_def)
  have 2: "sort_one imager ''/data/'' unknown_frame st =
             Inr (classified imager ''/data/'' ''/data/u.fits'' ?h ''test'' ''BAD'' st)" for st
    using t by (simp add: sort_one_def unknown_frame_def) (simp add: imager_def)
  have b: "basename ''/data/u.fits'' = ''u.fits''" by (simp add: basename_def)
  have r: "py_replace ''/data/'' ''/data/bad/'' ''/data/u.fits'' = ''/data/bad/u.fits''"
    by (simp add: py_replace.simps)
  have "sort_files [primary_only, unknown_frame] imager ''/data/'' =
          Inr (classified imager ''/data/'' ''/data/u.fits'' ?h ''test'' ''BAD''
                 (initial_state\<lparr>moved := [(''/data/p.fits'', ''/data/bad/'')]\<rparr>))"
    by (simp add: sort_files_def 1 2)
  then show ?thesis
    by (simp add: classified_def Let_def b r) (simp add: imager_def initial_state_def)
qed

text \<open>
  C2. The dictionary \<open>cal_list\<close> that sort\_files returns always holds the key
  \<^verbatim>\<open>BIAS\<close>, with or without frames; lines 119--123 count that key and then read
  \<^verbatim>\<open>cal.split('_')[1]\<close>, which does not exist. With bias calibration enabled the
  run ends with IndexError at line 122, whether there is no bias frame or one, and the
  exit of lines 138--141 is not reached.
\<close>

theorem bias_stage_raises_IndexError:
  "map_sum id cal_list (sort_files [science_frame] imager ''/data/'') = Inr [(''BIAS'', [])] \<and>
   bias_stage optical False ''/data/red/'' [(''BIAS'', [])] empty_world = Inl IndexError \<and>
   bias_stage optical False ''/data/red/'' [(''BIAS'', [''/data/raw/b.fits''])] empty_world =
     Inl IndexError"
proof -
  let ?h = "[''OBJECT'' \<mapsto> ''GRB 1'', ''OBSMODE'' \<mapsto> ''imaging'', ''APTYPE'' \<mapsto> ''open'',
             ''FILTER'' \<mapsto> ''K'', ''EXPTIME'' \<mapsto> ''30'']"
  have t: "file_type_of imager ?h = Inr ''SCIENCE''"
    by (simp add: file_type_of_def imager_def header_equals_def)
  have "sort_one imager ''/data/'' science_frame st =
          Inr (classified imager ''/data/'' ''/data/s.fits'' ?h ''GRB 1'' ''SCIENCE'' st)" for st
    using t by (simp add: sort_one_def science_frame_def) (simp add: imager_def)
  then have "sort_files [science_frame] imager ''/data/'' =
          Inr (classified imager ''/data/'' ''/data/s.fits'' ?h ''GRB 1'' ''SCIENCE'' initial_state)"
    by (simp add: sort_files_def)
  then have c: "map_sum id cal_list (sort_files [science_frame] imager ''/data/'') = Inr [(''BIAS'', [])]"
    by (simp add: classified_def Let_def initial_state_def)
  have b: "bias optical" by (simp add: optical_def)
  show ?thesis using c bias_stage_BIAS_first[OF b] by simp
qed

text \<open>
  C8, as amended. For a FLAT group of \<open>cal_list\<close>: when skip mode is on and every
  expected master flat exists, no build delegate is called and the files stay as they
  are; otherwise the master flat is built, provided the master bias of the configuration
  loads when bias calibration is enabled, and the instrument is optical or dome flats
  are requested for an NIR instrument; otherwise the group is skipped without a build.
\<close>

theorem flat_key_skip_or_build:
  assumes "py_in ''FLAT'' cal"
    and "py_index (split_us cal) 1 = Inr fil"
    and "py_index (split_us cal) 2 = Inr amp"
    and "py_index (split_us cal) 3 = Inr binn"
  shows "(skip_red \<and> list_all (exists (files w)) (flat_name tel flat_path fil amp binn) \<longrightarrow>
            flat_key tel skip_red use_dome_flats red_path flat_path (cal, frames) w = Inr w) \<and>
         (\<not> (skip_red \<and> list_all (exists (files w)) (flat_name tel flat_path fil amp binn)) \<and>
          (bias tel \<longrightarrow> load_bias tel (files w) red_path amp binn \<noteq> None) \<and>
          (instrument_wavelength tel = ''OPT'' \<or>
           instrument_wavelength tel = ''NIR'' \<and> use_dome_flats) \<longrightarrow>
            flat_key tel skip_red use_dome_flats red_path flat_path (cal, frames) w =
              Inr (w\<lparr>files := create_flat tel frames fil amp binn red_path
                                  (if bias tel then load_bias tel (files w) red_path amp binn else None)
                                  (files w),
                       builds := builds w @ [Create_flat frames fil amp binn]\<rparr>)) \<and>
         (\<not> (skip_red \<and> list_all (exists (files w)) (flat_name tel flat_path fil amp binn)) \<and>
          \<not> ((bias tel \<longrightarrow> load_bias tel (files w) red_path amp binn \<noteq> None) \<and>
             (instrument_wavelength tel = ''OPT'' \<or>
              instrument_wavelength tel = ''NIR'' \<and> use_dome_flats)) \<longrightarrow>
            flat_key tel skip_red use_dome_flats red_path flat_path (cal, frames) w = Inr w)"
  using assms by (auto simp: flat_key_def Let_def)

text \<open>
  Without bias calibration and in skip mode: the optical instrument leaves an existing
  master flat as it is and builds a missing one; the NIR instrument without dome flats
  skips the group.
\<close>

theorem flat_key_skip_or_build_witness:
  "flat_key optical_no_bias True False ''/data//red/'' ''/data//red/''
     (''FLAT_V_A_1x1'', [''/data/raw/f.fits'']) reduced_world = Inr reduced_world \<and>
   flat_key optical_no_bias True False ''/data//red/'' ''/data//red/''
     (''FLAT_V_A_1x1'', [''/data/raw/f.fits'']) empty_world =
     Inr \<lparr> files = [''/data//red/mflat_V_A_1x1.fits'' \<mapsto> ''master flat''],
           builds = [Create_flat [''/data/raw/f.fits''] ''V'' ''A'' ''1x1''] \<rparr> \<and>
   flat_key nir_camera True False ''/data//red/'' ''/data//red/''
     (''FLAT_V_A_1x1'', [''/data/raw/f.fits'']) empty_world = Inr empty_world"
proof (intro conjI)
  show "flat_key optical_no_bias True False ''/data//red/'' ''/data//red/''
     (''FLAT_V_A_1x1'', [''/data/raw/f.fits'']) reduced_world = Inr reduced_world"
    using flat_key_skip_or_build[OF flat_key_parts, where skip_red = True and w = reduced_world
            and tel = optical_no_bias and flat_path = "''/data//red/''" and red_path = "''/data//red/''"
            and use_dome_flats = False and frames = "[''/data/raw/f.fits'']"]
    by (simp add: optical_no_bias_def optical_def reduced_world_def exists_def)
next
  show "flat_key optical_no_bias True False ''/data//red/'' ''/data//red/''
     (''FLAT_V_A_1x1'', [''/data/raw/f.fits'']) empty_world =
     Inr \<lparr> files = [''/data//red/mflat_V_A_1x1.fits'' \<mapsto> ''master flat''],
           builds = [Create_flat [''/data/raw/f.fits''] ''V'' ''A'' ''1x1''] \<rparr>"
    using flat_key_skip_or_build[OF flat_key_parts, where skip_red = True and w = empty_world
            and tel = optical_no_bias and flat_path = "''/data//red/''" and red_path = "''/data//red/''"
            and use_dome_flats = False and frames = "[''/data/raw/f.fits'']"]
    by (simp add: optical_no_bias_def optical_def empty_world_def exists_def)
next
  show "flat_key nir_camera True False ''/data//red/'' ''/data//red/''
     (''FLAT_V_A_1x1'', [''/data/raw/f.fits'']) empty_world = Inr empty_world"
    using flat_key_skip_or_build[OF flat_key_parts, where skip_red = True and w = empty_world
            and tel = nir_camera and flat_path = "''/data//red/''" and red_path = "''/data//red/''"
            and use_dome_flats = False and frames = "[''/data/raw/f.fits'']"]
    by (simp add: nir_camera_def optical_def empty_world_def exists_def)
qed

text \<open>
  C8 as stated fails. An NIR instrument without bias and dark calibration, in skip mode
  and without dome flats; sort\_files puts a dome flat of filter V and a science frame
  of filter K into \<open>cal_list\<close> and \<open>sky_list\<close>. The master flat of filter V is
  missing, its group is passed over, and lines 116--239 end with the sky flat of filter
  K as the only build.
\<close>

theorem missing_flat_not_built_counterexample:
  "map_sum id cal_list (sort_files [dome_flat_V, science_K] nir_classifier ''/data/'') =
     Inr [(''BIAS'', []), (''FLAT_V_A_1x1'', [''/data/raw/f.fits''])] \<and>
   map_sum id sky_list (sort_files [dome_flat_V, science_K] nir_classifier ''/data/'') =
     Inr [(''K_A_1x1'', [''/data/raw/s.fits''])] \<and>
   \<not> list_all (exists (files empty_world)) (flat_name nir_camera ''/data//red/'' ''V'' ''A'' ''1x1'') \<and>
   flat_key nir_camera True False ''/data//red/'' ''/data//red/''
     (''FLAT_V_A_1x1'', [''/data/raw/f.fits'']) empty_world = Inr empty_world \<and>
   master_frames nir_camera True False ''/data//red/'' ''/data//red/''
     [(''BIAS'', []), (''FLAT_V_A_1x1'', [''/data/raw/f.fits''])]
     [(''K_A_1x1'', [''/data/raw/s.fits''])] empty_world =
     Inr \<lparr> files = [''/data//red/mflat_K_A_1x1.fits'' \<mapsto> ''master flat''],
           builds = [Create_flat [''/data/raw/s.fits''] ''K'' ''A'' ''1x1''] \<rparr>"
proof -
  have m: "\<not> list_all (exists (files empty_world)) (flat_name nir_camera ''/data//red/'' ''V'' ''A'' ''1x1'')"
    by (simp add: nir_camera_def optical_def empty_world_def exists_def)
  have k: "flat_key nir_camera True False ''/data//red/'' ''/data//red/''
     (''FLAT_V_A_1x1'', [''/data/raw/f.fits'']) empty_world = Inr empty_world"
    by (simp add: flat_key_def py_index_def) (simp add: nir_camera_def optical_def empty_world_def exists_def)
  show ?thesis using nir_sort_files nir_master_frames m k by blast
qed

end
